theory Spec2Isabelle
  imports Main
begin

section \<open>Download archives (gallery\_dl/archive.py)\<close>

text \<open>
  The module keeps a ledger of archive keys in a database table with the single column
  \<open>entry TEXT PRIMARY KEY\<close>.  The database drivers (sqlite3, psycopg), the file system
  and the formatter are outside the module: whether one of their calls returns or raises
  is an input of the model, given as the outcome of that call.
\<close>

subsection \<open>Values, exceptions, item metadata\<close>

type_synonym key = string

text \<open>An item's metadata mapping; the reserved cache field holds a key string.\<close>

type_synonym kwdict = "string \<rightharpoonup> string"

text \<open>
  The exceptions the module tells apart: \<open>sqlite3.OperationalError\<close> has handlers of its
  own, every other exception is caught by \<open>except Exception\<close> only.
\<close>

datatype exn =
    Sqlite3_OperationalError
  | FileNotFoundError
  | ImportError
  | OtherException string

subsection \<open>Table names and statements\<close>

definition dquote :: char where
  "dquote = CHR 0x22"

text \<open>\<^verbatim>\<open>name.replace('"', '_')\<close>\<close>

definition replace_quotes :: "string \<Rightarrow> string" where
  "replace_quotes name = map (\<lambda>c. if c = dquote then CHR ''_'' else c) name"

text \<open>\<^verbatim>\<open>def sanitize(name): return f'''"{name.replace('"', '_')}"'''\<close>\<close>

definition sanitize :: "string \<Rightarrow> string" where
  "sanitize name = [dquote] @ replace_quotes name @ [dquote]"

text \<open>\<^verbatim>\<open>table = "archive" if table is None else sanitize(table)\<close>\<close>

definition table_name :: "string option \<Rightarrow> string" where
  "table_name table = (case table of None \<Rightarrow> ''archive'' | Some t \<Rightarrow> sanitize t)"

text \<open>The statements of \<open>DownloadArchive.__init__\<close>, with the table interpolated.\<close>

definition sqlite_stmt_select :: "string \<Rightarrow> string" where
  "sqlite_stmt_select table = ''SELECT 1 '' @ ''FROM '' @ table @ '' '' @ ''WHERE entry=? '' @ ''LIMIT 1''"

definition sqlite_stmt_insert :: "string \<Rightarrow> string" where
  "sqlite_stmt_insert table = ''INSERT OR IGNORE INTO '' @ table @ '' '' @ ''(entry) VALUES (?)''"

definition sqlite_stmt_create_without_rowid :: "string \<Rightarrow> string" where
  "sqlite_stmt_create_without_rowid table =
     ''CREATE TABLE IF NOT EXISTS '' @ table @ '' '' @ ''(entry TEXT PRIMARY KEY) WITHOUT ROWID''"

definition sqlite_stmt_create :: "string \<Rightarrow> string" where
  "sqlite_stmt_create table =
     ''CREATE TABLE IF NOT EXISTS '' @ table @ '' '' @ ''(entry TEXT PRIMARY KEY)''"

text \<open>The statements of \<open>DownloadArchivePostgresql.__init__\<close>.\<close>

definition pg_stmt_select :: "string \<Rightarrow> string" where
  "pg_stmt_select table = ''SELECT true '' @ ''FROM '' @ table @ '' '' @ ''WHERE entry=%s '' @ ''LIMIT 1''"

definition pg_stmt_insert :: "string \<Rightarrow> string" where
  "pg_stmt_insert table =
     ''INSERT INTO '' @ table @ '' (entry) '' @ ''VALUES (%s) '' @ ''ON CONFLICT DO NOTHING''"

definition pg_stmt_create :: "string \<Rightarrow> string" where
  "pg_stmt_create table =
     ''CREATE TABLE IF NOT EXISTS '' @ table @ '' '' @ ''(entry TEXT PRIMARY KEY)''"

text \<open>The statement \<open>sync_from_sqlite\<close> reads the fallback store with.\<close>

definition sync_stmt_select :: "string option \<Rightarrow> string" where
  "sync_stmt_select table =
     ''SELECT entry FROM '' @ sanitize (case table of None \<Rightarrow> ''archive'' | Some t \<Rightarrow> t)"

text \<open>
  How SQLite and PostgreSQL read a delimited identifier: it opens with a double quote and
  runs to the first double quote that is not doubled (a doubled quote stands for one quote
  character of the name).  \<open>scan_quoted\<close> reads after the opening quote and returns the
  name and the text that follows the closing quote; \<open>None\<close> is an unterminated identifier.
\<close>

fun scan_quoted :: "string \<Rightarrow> (string \<times> string) option" where
  "scan_quoted [] = None"
| "scan_quoted [c] = (if c = dquote then Some ([], []) else None)"
| "scan_quoted (c # d # cs) =
     (if c = dquote then
        (if d = dquote then
           (case scan_quoted cs of None \<Rightarrow> None | Some (b, r) \<Rightarrow> Some (dquote # b, r))
         else Some ([], d # cs))
      else
        (case scan_quoted (d # cs) of None \<Rightarrow> None | Some (b, r) \<Rightarrow> Some (c # b, r)))"

subsection \<open>Paths\<close>

text \<open>
  \<open>os.path.dirname\<close> of the standard library (posixpath):
  \<^verbatim>\<open>i = p.rfind('/') + 1; head = p[:i]\<close>,
  \<^verbatim>\<open>if head and head != '/' * len(head): head = head.rstrip('/')\<close>.
\<close>

definition dirname :: "string \<Rightarrow> string" where
  "dirname p =
     (let head = rev (dropWhile (\<lambda>c. c \<noteq> CHR ''/'') (rev p)) in
      if head \<noteq> [] \<and> head \<noteq> replicate (length head) CHR ''/''
      then rev (dropWhile (\<lambda>c. c = CHR ''/'') (rev head))
      else head)"

subsection \<open>The environment: drivers, file system, formatter\<close>

text \<open>
  What the calls into the drivers, the file system and the formatter answer.  Opening a
  store answers with an exception or with the entries the ledger's table holds there
  (none when the table does not exist yet).  \<open>sqlite3_connect_retry\<close> is the answer of
  the second \<open>sqlite3.connect\<close> of \<open>DownloadArchive.__init__\<close>, made after
  \<open>os.makedirs\<close>.  \<open>expand_path\<close> is \<open>util.expand_path\<close> and \<open>parse_format s\<close> is
  \<open>formatter.parse(s).format_map\<close>.
\<close>

record environment =
  sqlite3_connect :: "string \<Rightarrow> exn + key list"
  sqlite3_connect_retry :: "string \<Rightarrow> exn + key list"
  makedirs_outcome :: "string \<Rightarrow> exn option"
  remove_outcome :: "string \<Rightarrow> exn option"
  path_exists :: "string \<Rightarrow> bool"
  psycopg_import :: "exn option"
  psycopg_connect :: "string \<Rightarrow> exn + key list"
  expand_path :: "string \<Rightarrow> string"
  parse_format :: "string \<Rightarrow> kwdict \<Rightarrow> string"

text \<open>
  \<open>os.makedirs(name)\<close>: on the empty name the library raises \<open>FileNotFoundError\<close>
  (there is no directory to make); on any other name the environment answers.
\<close>

definition os_makedirs :: "environment \<Rightarrow> string \<Rightarrow> exn option" where
  "os_makedirs E name = (if name = [] then Some FileNotFoundError else makedirs_outcome E name)"

text \<open>
  Which driver calls on an open connection raise: a statement by its text (the driver or
  the engine refuses the text, whatever its parameters), the insert or select of one key
  by the key, an insert whose key the table already holds by the text of the statement
  (a violation of the primary key), and \<open>commit\<close>, \<open>rollback\<close> and \<open>close\<close>.
\<close>

record faults =
  on_statement :: "string \<Rightarrow> exn option"
  on_execute :: "key \<Rightarrow> exn option"
  on_conflict :: "string \<Rightarrow> exn option"
  on_commit :: "exn option"
  on_rollback :: "exn option"
  on_close :: "exn option"

definition no_faults :: faults where
  "no_faults = \<lparr>on_statement = (\<lambda>_. None), on_execute = (\<lambda>_. None),
                 on_conflict = (\<lambda>_. None),
                 on_commit = None, on_rollback = None, on_close = None\<rparr>"

subsection \<open>Connections\<close>

text \<open>
  A connection with its cursor: the entries of the ledger's table as the connection sees
  them, the entries at the start of the open transaction (if one is open), and the
  statements handed to the cursor with their parameters, oldest first.
\<close>

record db_connection =
  rows :: "key list"
  snapshot :: "key list option"
  executed :: "(string \<times> key list) list"

definition new_connection :: "key list \<Rightarrow> db_connection" where
  "new_connection rs = \<lparr>rows = rs, snapshot = None, executed = []\<rparr>"

text \<open>
  An insert that does not raise: an entry already in the table is left alone (as
  \<open>INSERT OR IGNORE\<close> and \<open>INSERT ... ON CONFLICT DO NOTHING\<close> do on the primary key
  column), a new one is appended.
\<close>

definition insert_ignore :: "key \<Rightarrow> key list \<Rightarrow> key list" where
  "insert_ignore k rs = (if k \<in> set rs then rs else rs @ [k])"

definition issue :: "string \<Rightarrow> key list \<Rightarrow> db_connection \<Rightarrow> db_connection" where
  "issue stmt params c = c\<lparr>executed := executed c @ [(stmt, params)]\<rparr>"

text \<open>psycopg opens a transaction with the first statement (autocommit is off).\<close>

definition pg_begin_implicit :: "db_connection \<Rightarrow> db_connection" where
  "pg_begin_implicit c = (case snapshot c of None \<Rightarrow> c\<lparr>snapshot := Some (rows c)\<rparr> | Some _ \<Rightarrow> c)"

text \<open>\<open>cursor.execute(stmt)\<close> for a statement without parameters.\<close>

definition sqlite_execute_statement :: "faults \<Rightarrow> string \<Rightarrow> db_connection \<Rightarrow> exn option \<times> db_connection" where
  "sqlite_execute_statement F stmt c = (on_statement F stmt, issue stmt [] c)"

definition pg_execute_statement :: "faults \<Rightarrow> string \<Rightarrow> db_connection \<Rightarrow> exn option \<times> db_connection" where
  "pg_execute_statement F stmt c = (on_statement F stmt, issue stmt [] (pg_begin_implicit c))"

text \<open>
  \<open>cursor.execute("BEGIN")\<close> on the sqlite3 connection (\<open>isolation_level = None\<close>):
  inside a transaction SQLite refuses it with an \<open>OperationalError\<close>.
\<close>

definition sqlite_begin :: "faults \<Rightarrow> db_connection \<Rightarrow> exn option \<times> db_connection" where
  "sqlite_begin F c =
     (case sqlite_execute_statement F ''BEGIN'' c of
        (Some e, c1) \<Rightarrow> (Some e, c1)
      | (None, c1) \<Rightarrow>
          (case snapshot c1 of
             Some _ \<Rightarrow> (Some Sqlite3_OperationalError, c1)
           | None \<Rightarrow> (None, c1\<lparr>snapshot := Some (rows c1)\<rparr>)))"

text \<open>
  What the insert of key \<open>k\<close> by the statement \<open>stmt\<close> raises on a table holding \<open>rs\<close>:
  the refusal of the statement, else the fault on that key, else (when the table holds
  the key already) what a conflict raises under that statement.
\<close>

definition insert_fault :: "faults \<Rightarrow> string \<Rightarrow> key \<Rightarrow> key list \<Rightarrow> exn option" where
  "insert_fault F stmt k rs =
     (case on_statement F stmt of
        Some e \<Rightarrow> Some e
      | None \<Rightarrow>
          (case on_execute F k of
             Some e \<Rightarrow> Some e
           | None \<Rightarrow> if k \<in> set rs then on_conflict F stmt else None))"

text \<open>\<open>cursor.execute(self._stmt_insert, (key,))\<close>\<close>

definition insert_row :: "faults \<Rightarrow> string \<Rightarrow> key \<Rightarrow> db_connection \<Rightarrow> exn option \<times> db_connection" where
  "insert_row F stmt k c =
     (case insert_fault F stmt k (rows c) of
        Some e \<Rightarrow> (Some e, c)
      | None \<Rightarrow> (None, c\<lparr>rows := insert_ignore k (rows c)\<rparr>))"

definition sqlite_execute_insert :: "faults \<Rightarrow> string \<Rightarrow> key \<Rightarrow> db_connection \<Rightarrow> exn option \<times> db_connection" where
  "sqlite_execute_insert F stmt k c = insert_row F stmt k (issue stmt [k] c)"

definition pg_execute_insert :: "faults \<Rightarrow> string \<Rightarrow> key \<Rightarrow> db_connection \<Rightarrow> exn option \<times> db_connection" where
  "pg_execute_insert F stmt k c = insert_row F stmt k (issue stmt [k] (pg_begin_implicit c))"

text \<open>
  \<open>cursor.executemany(stmt, rows)\<close>: one call, the rows inserted in order up to the
  first that raises.
\<close>

fun insert_rows :: "faults \<Rightarrow> string \<Rightarrow> key list \<Rightarrow> db_connection \<Rightarrow> exn option \<times> db_connection" where
  "insert_rows F stmt [] c = (None, c)"
| "insert_rows F stmt (k # ks) c =
     (case insert_row F stmt k c of
        (Some e, c1) \<Rightarrow> (Some e, c1)
      | (None, c1) \<Rightarrow> insert_rows F stmt ks c1)"

definition sqlite_executemany :: "faults \<Rightarrow> string \<Rightarrow> key list \<Rightarrow> db_connection \<Rightarrow> exn option \<times> db_connection" where
  "sqlite_executemany F stmt ks c = insert_rows F stmt ks (issue stmt ks c)"

definition pg_executemany :: "faults \<Rightarrow> string \<Rightarrow> key list \<Rightarrow> db_connection \<Rightarrow> exn option \<times> db_connection" where
  "pg_executemany F stmt ks c = insert_rows F stmt ks (issue stmt ks (pg_begin_implicit c))"

text \<open>\<^verbatim>\<open>for key in self.keys: cursor.execute(stmt, (key,))\<close>\<close>

fun execute_each :: "faults \<Rightarrow> string \<Rightarrow> key list \<Rightarrow> db_connection \<Rightarrow> exn option \<times> db_connection" where
  "execute_each F stmt [] c = (None, c)"
| "execute_each F stmt (k # ks) c =
     (case sqlite_execute_insert F stmt k c of
        (Some e, c1) \<Rightarrow> (Some e, c1)
      | (None, c1) \<Rightarrow> execute_each F stmt ks c1)"

text \<open>
  \<open>cursor.execute(self._stmt_select, (key,))\<close> followed by \<open>cursor.fetchone()\<close>:
  whether a row came back.
\<close>

definition select_fault :: "faults \<Rightarrow> string \<Rightarrow> key \<Rightarrow> exn option" where
  "select_fault F stmt k =
     (case on_statement F stmt of
        Some e \<Rightarrow> Some e
      | None \<Rightarrow> on_execute F k)"

definition select_row :: "faults \<Rightarrow> string \<Rightarrow> key \<Rightarrow> db_connection \<Rightarrow> (exn + bool) \<times> db_connection" where
  "select_row F stmt k c =
     (case select_fault F stmt k of
        Some e \<Rightarrow> (Inl e, issue stmt [k] c)
      | None \<Rightarrow> (Inr (k \<in> set (rows c)), issue stmt [k] c))"

definition pg_select_row :: "faults \<Rightarrow> string \<Rightarrow> key \<Rightarrow> db_connection \<Rightarrow> (exn + bool) \<times> db_connection" where
  "pg_select_row F stmt k c = select_row F stmt k (pg_begin_implicit c)"

definition commit :: "faults \<Rightarrow> db_connection \<Rightarrow> exn option \<times> db_connection" where
  "commit F c =
     (case on_commit F of
        Some e \<Rightarrow> (Some e, c)
      | None \<Rightarrow> (None, c\<lparr>snapshot := None\<rparr>))"

definition rollback :: "faults \<Rightarrow> db_connection \<Rightarrow> exn option \<times> db_connection" where
  "rollback F c =
     (case on_rollback F of
        Some e \<Rightarrow> (Some e, c)
      | None \<Rightarrow>
          (None, c\<lparr>rows := (case snapshot c of None \<Rightarrow> rows c | Some s \<Rightarrow> s),
                    snapshot := None\<rparr>))"

text \<open>
  Leaving \<^verbatim>\<open>with self.connection:\<close> (sqlite3): the body returned, so commit, and roll
  back if the commit raises; or the body raised, so roll back and let the exception
  pass.  A rollback that raises replaces the exception.
\<close>

definition connection_exit :: "faults \<Rightarrow> exn option \<Rightarrow> db_connection \<Rightarrow> exn option \<times> db_connection" where
  "connection_exit F body c =
     (case body of
        None \<Rightarrow>
          (case commit F c of
             (None, c1) \<Rightarrow> (None, c1)
           | (Some e, c1) \<Rightarrow>
               (case rollback F c1 of
                  (None, c2) \<Rightarrow> (Some e, c2)
                | (Some e', c2) \<Rightarrow> (Some e', c2)))
      | Some e \<Rightarrow>
          (case rollback F c of
             (None, c1) \<Rightarrow> (Some e, c1)
           | (Some e', c1) \<Rightarrow> (Some e', c1)))"

text \<open>\<^verbatim>\<open>cursor.execute(...); connection.commit()\<close> inside one \<open>try\<close>.\<close>

definition then_commit :: "faults \<Rightarrow> exn option \<times> db_connection \<Rightarrow> exn option \<times> db_connection" where
  "then_commit F rc = (case rc of (None, c) \<Rightarrow> commit F c | (Some e, c) \<Rightarrow> (Some e, c))"

subsection \<open>How the engines read the statements\<close>

text \<open>
  Whether a statement runs is decided by the engine that reads it, not by the module.
  The reading below covers the statements the module writes: fixed words around one
  table, which is a delimited identifier or a bare word of letters, digits and
  underscores that does not start with a digit.
\<close>

definition bare_char :: "char \<Rightarrow> bool" where
  "bare_char c = (c \<in> set ''abcdefghijklmnopqrstuvwxyzABCDEFGHIJKLMNOPQRSTUVWXYZ0123456789_'')"

definition lex_table :: "string \<Rightarrow> (string \<times> string) option" where
  "lex_table s =
     (case s of
        [] \<Rightarrow> None
      | c # cs \<Rightarrow>
          if c = dquote then scan_quoted cs
          else if bare_char c \<and> c \<notin> set ''0123456789''
          then Some (takeWhile bare_char s, dropWhile bare_char s)
          else None)"

datatype statement_kind = Create_table | Insert_or_ignore | Insert_plain | Select_one | Select_entries

text \<open>A form of statement: its kind, the words before the table and the words after it.\<close>

type_synonym statement_form = "statement_kind \<times> string \<times> string"

definition strip_prefix :: "string \<Rightarrow> string \<Rightarrow> string option" where
  "strip_prefix pre s = (if take (length pre) s = pre then Some (drop (length pre) s) else None)"

definition match_form :: "statement_form \<Rightarrow> string \<Rightarrow> (statement_kind \<times> string) option" where
  "match_form form stmt =
     (case form of
        (kind, pre, suf) \<Rightarrow>
          (case strip_prefix pre stmt of
             None \<Rightarrow> None
           | Some r \<Rightarrow>
               (case lex_table r of
                  None \<Rightarrow> None
                | Some (t, r') \<Rightarrow> if r' = suf then Some (kind, t) else None)))"

text \<open>
  The kind of a statement and the table it names, by the first form it fits; \<open>None\<close>
  when it fits no form (a syntax error, or some other statement).
\<close>

fun read_statement :: "statement_form list \<Rightarrow> string \<Rightarrow> (statement_kind \<times> string) option" where
  "read_statement [] stmt = None"
| "read_statement (form # forms) stmt =
     (case match_form form stmt of
        Some r \<Rightarrow> Some r
      | None \<Rightarrow> read_statement forms stmt)"

definition sqlite_forms :: "statement_form list" where
  "sqlite_forms =
     [(Create_table, ''CREATE TABLE IF NOT EXISTS '', '' (entry TEXT PRIMARY KEY) WITHOUT ROWID''),
      (Create_table, ''CREATE TABLE IF NOT EXISTS '', '' (entry TEXT PRIMARY KEY)''),
      (Insert_or_ignore, ''INSERT OR IGNORE INTO '', '' (entry) VALUES (?)''),
      (Insert_plain, ''INSERT INTO '', '' (entry) VALUES (?)''),
      (Select_one, ''SELECT 1 FROM '', '' WHERE entry=? LIMIT 1''),
      (Select_entries, ''SELECT entry FROM '', [])]"


text \<open>
  What an insert raises when the table holds its key already: a plain \<open>INSERT\<close> violates
  the primary key, an insert with \<open>OR IGNORE\<close> or \<open>ON CONFLICT DO NOTHING\<close> raises nothing.
\<close>

definition conflict_raises :: "statement_form list \<Rightarrow> string \<Rightarrow> exn option" where
  "conflict_raises forms stmt =
     (case read_statement forms stmt of
        None \<Rightarrow> None
      | Some (kind, t) \<Rightarrow>
          if kind = Insert_plain
          then Some (OtherException ''IntegrityError: UNIQUE constraint failed'')
          else None)"

text \<open>
  sqlite3: a statement with a NUL character is refused by the driver
  (\<open>ProgrammingError\<close>); \<open>BEGIN\<close> and \<open>PRAGMA\<close> are read as they are; any other statement
  that fits no form is a syntax error (\<open>OperationalError\<close>).
\<close>

definition sqlite_refuses :: "string \<Rightarrow> exn option" where
  "sqlite_refuses stmt =
     (if CHR 0x00 \<in> set stmt
      then Some (OtherException ''ProgrammingError: the query contains a null character'')
      else if stmt = ''BEGIN'' \<or> take 7 stmt = ''PRAGMA '' then None
      else (case read_statement sqlite_forms stmt of
              None \<Rightarrow> Some Sqlite3_OperationalError
            | Some r \<Rightarrow> None))"

definition sqlite_engine :: faults where
  "sqlite_engine =
     \<lparr>on_statement = sqlite_refuses, on_execute = (\<lambda>_. None),
      on_conflict = conflict_raises sqlite_forms,
      on_commit = None, on_rollback = None, on_close = None\<rparr>"



subsection \<open>The archive classes\<close>

datatype archive_class =
    DownloadArchive
  | DownloadArchiveMemory
  | DownloadArchivePostgresql
  | DownloadArchivePostgresqlMemory

text \<open>
  An archive object: its class and its attributes.  \<open>keys\<close> is the \<open>set()\<close> of the two
  memory classes, kept as a list without duplicates (the other classes have no such
  attribute; it stays empty there).
\<close>

record archive =
  cls :: archive_class
  keygen :: "kwdict \<Rightarrow> key"
  connection :: db_connection
  cache_key :: string
  stmt_select :: string
  stmt_insert :: string
  keys :: "key list"

text \<open>The value \<open>fetchone()\<close> or the method itself returns from \<open>check\<close>.\<close>

datatype py_value = PyRow | PyNone | PyTrue | PyFalse

fun truthy :: "py_value \<Rightarrow> bool" where
  "truthy PyRow = True"
| "truthy PyTrue = True"
| "truthy PyNone = False"
| "truthy PyFalse = False"

definition fetchone :: "bool \<Rightarrow> py_value" where
  "fetchone found = (if found then PyRow else PyNone)"

text \<open>\<^verbatim>\<open>cache_key or "_archive_key"\<close>\<close>

definition cache_key_or_default :: "string option \<Rightarrow> string" where
  "cache_key_or_default ck =
     (case ck of None \<Rightarrow> ''_archive_key'' | Some s \<Rightarrow> if s = [] then ''_archive_key'' else s)"

text \<open>\<^verbatim>\<open>kwdict.get(self._cache_key) or self.keygen(kwdict)\<close>\<close>

definition cached_or_keygen :: "archive \<Rightarrow> kwdict \<Rightarrow> key" where
  "cached_or_keygen a kw =
     (case kw (cache_key a) of
        None \<Rightarrow> keygen a kw
      | Some v \<Rightarrow> if v = [] then keygen a kw else v)"

subsubsection \<open>DownloadArchive\<close>

text \<open>\<^verbatim>\<open>if pragma: for stmt in pragma: cursor.execute(f"PRAGMA {stmt}")\<close>\<close>

fun execute_pragmas :: "faults \<Rightarrow> string list \<Rightarrow> db_connection \<Rightarrow> exn option \<times> db_connection" where
  "execute_pragmas F [] c = (None, c)"
| "execute_pragmas F (stmt # stmts) c =
     (case sqlite_execute_statement F (''PRAGMA '' @ stmt) c of
        (Some e, c1) \<Rightarrow> (Some e, c1)
      | (None, c1) \<Rightarrow> execute_pragmas F stmts c1)"

text \<open>
  The first lines of \<open>DownloadArchive.__init__\<close>: open the store; on
  \<open>sqlite3.OperationalError\<close> make the directory of the path and open again.
\<close>

definition open_store :: "environment \<Rightarrow> string \<Rightarrow> exn + key list" where
  "open_store E path =
     (case sqlite3_connect E path of
        Inr rs \<Rightarrow> Inr rs
      | Inl e \<Rightarrow>
          if e = Sqlite3_OperationalError then
            (case os_makedirs E (dirname path) of
               Some e' \<Rightarrow> Inl e'
             | None \<Rightarrow> sqlite3_connect_retry E path)
          else Inl e)"

text \<open>
  The \<open>CREATE TABLE\<close> of \<open>DownloadArchive.__init__\<close>: \<open>WITHOUT ROWID\<close> first, the
  plain statement when that raises \<open>sqlite3.OperationalError\<close>.
\<close>

definition sqlite_create_table :: "faults \<Rightarrow> string \<Rightarrow> db_connection \<Rightarrow> exn option \<times> db_connection" where
  "sqlite_create_table F table c =
     (case sqlite_execute_statement F (sqlite_stmt_create_without_rowid table) c of
        (None, c1) \<Rightarrow> (None, c1)
      | (Some e, c1) \<Rightarrow>
          if e = Sqlite3_OperationalError
          then sqlite_execute_statement F (sqlite_stmt_create table) c1
          else (Some e, c1))"

definition DownloadArchive_init ::
  "environment \<Rightarrow> faults \<Rightarrow> string \<Rightarrow> (kwdict \<Rightarrow> key) \<Rightarrow> string option \<Rightarrow> string list option
     \<Rightarrow> string option \<Rightarrow> exn + archive" where
  "DownloadArchive_init E F path kg table pragma ck =
     (case open_store E path of
        Inl e \<Rightarrow> Inl e
      | Inr rs \<Rightarrow>
          (case execute_pragmas F (case pragma of None \<Rightarrow> [] | Some ps \<Rightarrow> ps) (new_connection rs) of
             (Some e, c1) \<Rightarrow> Inl e
           | (None, c1) \<Rightarrow>
               (case sqlite_create_table F (table_name table) c1 of
                  (Some e, c2) \<Rightarrow> Inl e
                | (None, c2) \<Rightarrow>
                    Inr \<lparr>cls = DownloadArchive, keygen = kg, connection = c2,
                         cache_key = cache_key_or_default ck,
                         stmt_select = sqlite_stmt_select (table_name table),
                         stmt_insert = sqlite_stmt_insert (table_name table),
                         keys = []\<rparr>)))"

definition DownloadArchive_add :: "faults \<Rightarrow> archive \<Rightarrow> kwdict \<Rightarrow> (exn + unit) \<times> archive" where
  "DownloadArchive_add F a kw =
     (let key = cached_or_keygen a kw in
      case sqlite_execute_insert F (stmt_insert a) key (connection a) of
        (None, c) \<Rightarrow> (Inr (), a\<lparr>connection := c\<rparr>)
      | (Some e, c) \<Rightarrow> (Inl e, a\<lparr>connection := c\<rparr>))"

text \<open>\<open>check\<close> returns its result, the item's metadata as it left them, and the archive.\<close>

definition DownloadArchive_check ::
  "faults \<Rightarrow> archive \<Rightarrow> kwdict \<Rightarrow> (exn + py_value) \<times> kwdict \<times> archive" where
  "DownloadArchive_check F a kw =
     (let key = keygen a kw; kw' = kw(cache_key a \<mapsto> key) in
      case select_row F (stmt_select a) key (connection a) of
        (Inr found, c) \<Rightarrow> (Inr (fetchone found), kw', a\<lparr>connection := c\<rparr>)
      | (Inl e, c) \<Rightarrow> (Inl e, kw', a\<lparr>connection := c\<rparr>))"

definition DownloadArchive_finalize :: "archive \<Rightarrow> (exn + unit) \<times> archive" where
  "DownloadArchive_finalize a = (Inr (), a)"

subsubsection \<open>DownloadArchiveMemory\<close>

definition DownloadArchiveMemory_init ::
  "environment \<Rightarrow> faults \<Rightarrow> string \<Rightarrow> (kwdict \<Rightarrow> key) \<Rightarrow> string option \<Rightarrow> string list option
     \<Rightarrow> string option \<Rightarrow> exn + archive" where
  "DownloadArchiveMemory_init E F path kg table pragma ck =
     (case DownloadArchive_init E F path kg table pragma ck of
        Inl e \<Rightarrow> Inl e
      | Inr a \<Rightarrow> Inr (a\<lparr>cls := DownloadArchiveMemory, keys := []\<rparr>))"

definition DownloadArchiveMemory_add :: "archive \<Rightarrow> kwdict \<Rightarrow> (exn + unit) \<times> archive" where
  "DownloadArchiveMemory_add a kw =
     (Inr (), a\<lparr>keys := List.insert (cached_or_keygen a kw) (keys a)\<rparr>)"

definition DownloadArchiveMemory_check ::
  "faults \<Rightarrow> archive \<Rightarrow> kwdict \<Rightarrow> (exn + py_value) \<times> kwdict \<times> archive" where
  "DownloadArchiveMemory_check F a kw =
     (let key = keygen a kw; kw' = kw(cache_key a \<mapsto> key) in
      if key \<in> set (keys a) then (Inr PyTrue, kw', a)
      else
        (case select_row F (stmt_select a) key (connection a) of
           (Inr found, c) \<Rightarrow> (Inr (fetchone found), kw', a\<lparr>connection := c\<rparr>)
         | (Inl e, c) \<Rightarrow> (Inl e, kw', a\<lparr>connection := c\<rparr>)))"

definition DownloadArchiveMemory_finalize :: "faults \<Rightarrow> archive \<Rightarrow> (exn + unit) \<times> archive" where
  "DownloadArchiveMemory_finalize F a =
     (if keys a = [] then (Inr (), a)
      else
        (let inserts = (\<lambda>c. if length (keys a) < 100
                             then execute_each F (stmt_insert a) (keys a) c
                             else sqlite_executemany F (stmt_insert a) (keys a) c);
             body = (case sqlite_begin F (connection a) of
                       (None, c0) \<Rightarrow> inserts c0
                     | (Some e, c0) \<Rightarrow>
                         if e = Sqlite3_OperationalError then inserts c0 else (Some e, c0))
         in case connection_exit F (fst body) (snd body) of
              (None, c) \<Rightarrow> (Inr (), a\<lparr>connection := c\<rparr>)
            | (Some e, c) \<Rightarrow> (Inl e, a\<lparr>connection := c\<rparr>)))"

subsubsection \<open>DownloadArchivePostgresql\<close>

text \<open>
  In the handlers of this class \<open>self.connection.rollback()\<close> follows \<open>log.error\<close>
  with no guard of its own: what it raises leaves the method.
\<close>

definition DownloadArchivePostgresql_init ::
  "environment \<Rightarrow> faults \<Rightarrow> string \<Rightarrow> (kwdict \<Rightarrow> key) \<Rightarrow> string option \<Rightarrow> string list option
     \<Rightarrow> string option \<Rightarrow> exn + archive" where
  "DownloadArchivePostgresql_init E F uri kg table pragma ck =
     (case psycopg_import E of
        Some e \<Rightarrow> Inl e
      | None \<Rightarrow>
          (case psycopg_connect E uri of
             Inl e \<Rightarrow> Inl e
           | Inr rs \<Rightarrow>
               (case then_commit F (pg_execute_statement F (pg_stmt_create (table_name table))
                                      (new_connection rs)) of
                  (None, c) \<Rightarrow>
                    Inr \<lparr>cls = DownloadArchivePostgresql, keygen = kg, connection = c,
                         cache_key = cache_key_or_default ck,
                         stmt_select = pg_stmt_select (table_name table),
                         stmt_insert = pg_stmt_insert (table_name table),
                         keys = []\<rparr>
                | (Some e, c) \<Rightarrow>
                    (case rollback F c of
                       (None, c1) \<Rightarrow> Inl e
                     | (Some e', c1) \<Rightarrow> Inl e'))))"

definition DownloadArchivePostgresql_add :: "faults \<Rightarrow> archive \<Rightarrow> kwdict \<Rightarrow> (exn + unit) \<times> archive" where
  "DownloadArchivePostgresql_add F a kw =
     (let key = cached_or_keygen a kw in
      case then_commit F (pg_execute_insert F (stmt_insert a) key (connection a)) of
        (None, c) \<Rightarrow> (Inr (), a\<lparr>connection := c\<rparr>)
      | (Some e, c) \<Rightarrow>
          (case rollback F c of
             (None, c1) \<Rightarrow> (Inr (), a\<lparr>connection := c1\<rparr>)
           | (Some e', c1) \<Rightarrow> (Inl e', a\<lparr>connection := c1\<rparr>)))"

definition DownloadArchivePostgresql_check ::
  "faults \<Rightarrow> archive \<Rightarrow> kwdict \<Rightarrow> (exn + py_value) \<times> kwdict \<times> archive" where
  "DownloadArchivePostgresql_check F a kw =
     (let key = keygen a kw; kw' = kw(cache_key a \<mapsto> key) in
      case pg_select_row F (stmt_select a) key (connection a) of
        (Inr found, c) \<Rightarrow> (Inr (fetchone found), kw', a\<lparr>connection := c\<rparr>)
      | (Inl e, c) \<Rightarrow>
          (case rollback F c of
             (None, c1) \<Rightarrow> (Inr PyFalse, kw', a\<lparr>connection := c1\<rparr>)
           | (Some e', c1) \<Rightarrow> (Inl e', kw', a\<lparr>connection := c1\<rparr>)))"

definition DownloadArchivePostgresql_finalize :: "archive \<Rightarrow> (exn + unit) \<times> archive" where
  "DownloadArchivePostgresql_finalize a = (Inr (), a)"

text \<open>
  \<open>sync_from_sqlite\<close> returns its result, the archive, and whether the fallback file
  was removed.  The \<open>finally\<close> clause closes the fallback connection and swallows what
  that raises, so it changes none of the three.
\<close>

definition sync_from_sqlite ::
  "environment \<Rightarrow> faults \<Rightarrow> archive \<Rightarrow> string \<Rightarrow> string option \<Rightarrow> bool
     \<Rightarrow> (exn + nat) \<times> archive \<times> bool" where
  "sync_from_sqlite E F a sqlite_path table delete_sqlite =
     (let path = expand_path E sqlite_path in
      case sqlite3_connect E path of
        Inl e \<Rightarrow> (Inl e, a, False)
      | Inr fetched \<Rightarrow>
          (case on_statement F (sync_stmt_select table) of
             Some e \<Rightarrow> (Inl e, a, False)
           | None \<Rightarrow>
               if fetched = [] then (Inr 0, a, False)
               else
                 (case then_commit F (pg_executemany F (stmt_insert a) fetched (connection a)) of
                    (None, c) \<Rightarrow>
                      (Inr (length fetched), a\<lparr>connection := c\<rparr>,
                       delete_sqlite \<and> on_close F = None \<and> remove_outcome E path = None)
                  | (Some e, c) \<Rightarrow>
                      (case rollback F c of
                         (None, c1) \<Rightarrow> (Inl e, a\<lparr>connection := c1\<rparr>, False)
                       | (Some e', c1) \<Rightarrow> (Inl e', a\<lparr>connection := c1\<rparr>, False)))))"

subsubsection \<open>DownloadArchivePostgresqlMemory\<close>

definition DownloadArchivePostgresqlMemory_init ::
  "environment \<Rightarrow> faults \<Rightarrow> string \<Rightarrow> (kwdict \<Rightarrow> key) \<Rightarrow> string option \<Rightarrow> string list option
     \<Rightarrow> string option \<Rightarrow> exn + archive" where
  "DownloadArchivePostgresqlMemory_init E F path kg table pragma ck =
     (case DownloadArchivePostgresql_init E F path kg table pragma ck of
        Inl e \<Rightarrow> Inl e
      | Inr a \<Rightarrow> Inr (a\<lparr>cls := DownloadArchivePostgresqlMemory, keys := []\<rparr>))"

definition DownloadArchivePostgresqlMemory_add :: "archive \<Rightarrow> kwdict \<Rightarrow> (exn + unit) \<times> archive" where
  "DownloadArchivePostgresqlMemory_add a kw =
     (Inr (), a\<lparr>keys := List.insert (cached_or_keygen a kw) (keys a)\<rparr>)"

definition DownloadArchivePostgresqlMemory_check ::
  "faults \<Rightarrow> archive \<Rightarrow> kwdict \<Rightarrow> (exn + py_value) \<times> kwdict \<times> archive" where
  "DownloadArchivePostgresqlMemory_check F a kw =
     (let key = keygen a kw; kw' = kw(cache_key a \<mapsto> key) in
      if key \<in> set (keys a) then (Inr PyTrue, kw', a)
      else
        (case pg_select_row F (stmt_select a) key (connection a) of
           (Inr found, c) \<Rightarrow> (Inr (fetchone found), kw', a\<lparr>connection := c\<rparr>)
         | (Inl e, c) \<Rightarrow>
             (case rollback F c of
                (None, c1) \<Rightarrow> (Inr PyFalse, kw', a\<lparr>connection := c1\<rparr>)
              | (Some e', c1) \<Rightarrow> (Inl e', kw', a\<lparr>connection := c1\<rparr>))))"

definition DownloadArchivePostgresqlMemory_finalize :: "faults \<Rightarrow> archive \<Rightarrow> (exn + unit) \<times> archive" where
  "DownloadArchivePostgresqlMemory_finalize F a =
     (if keys a = [] then (Inr (), a)
      else
        (case then_commit F (pg_executemany F (stmt_insert a) (keys a) (connection a)) of
           (None, c) \<Rightarrow> (Inr (), a\<lparr>connection := c\<rparr>)
         | (Some e, c) \<Rightarrow>
             (case rollback F c of
                (None, c1) \<Rightarrow> (Inr (), a\<lparr>connection := c1\<rparr>)
              | (Some e', c1) \<Rightarrow> (Inl e', a\<lparr>connection := c1\<rparr>))))"

subsubsection \<open>Method calls on an archive of any class\<close>

definition archive_add :: "faults \<Rightarrow> archive \<Rightarrow> kwdict \<Rightarrow> (exn + unit) \<times> archive" where
  "archive_add F a kw =
     (case cls a of
        DownloadArchive \<Rightarrow> DownloadArchive_add F a kw
      | DownloadArchiveMemory \<Rightarrow> DownloadArchiveMemory_add a kw
      | DownloadArchivePostgresql \<Rightarrow> DownloadArchivePostgresql_add F a kw
      | DownloadArchivePostgresqlMemory \<Rightarrow> DownloadArchivePostgresqlMemory_add a kw)"

definition archive_check :: "faults \<Rightarrow> archive \<Rightarrow> kwdict \<Rightarrow> (exn + py_value) \<times> kwdict \<times> archive" where
  "archive_check F a kw =
     (case cls a of
        DownloadArchive \<Rightarrow> DownloadArchive_check F a kw
      | DownloadArchiveMemory \<Rightarrow> DownloadArchiveMemory_check F a kw
      | DownloadArchivePostgresql \<Rightarrow> DownloadArchivePostgresql_check F a kw
      | DownloadArchivePostgresqlMemory \<Rightarrow> DownloadArchivePostgresqlMemory_check F a kw)"

definition archive_finalize :: "faults \<Rightarrow> archive \<Rightarrow> (exn + unit) \<times> archive" where
  "archive_finalize F a =
     (case cls a of
        DownloadArchive \<Rightarrow> DownloadArchive_finalize a
      | DownloadArchiveMemory \<Rightarrow> DownloadArchiveMemory_finalize F a
      | DownloadArchivePostgresql \<Rightarrow> DownloadArchivePostgresql_finalize a
      | DownloadArchivePostgresqlMemory \<Rightarrow> DownloadArchivePostgresqlMemory_finalize F a)"

text \<open>\<^verbatim>\<open>cls(path, keygen, table, pragma, cache_key)\<close>\<close>

definition construct ::
  "archive_class \<Rightarrow> environment \<Rightarrow> faults \<Rightarrow> string \<Rightarrow> (kwdict \<Rightarrow> key) \<Rightarrow> string option
     \<Rightarrow> string list option \<Rightarrow> string option \<Rightarrow> exn + archive" where
  "construct c E F path kg table pragma ck =
     (case c of
        DownloadArchive \<Rightarrow> DownloadArchive_init E F path kg table pragma ck
      | DownloadArchiveMemory \<Rightarrow> DownloadArchiveMemory_init E F path kg table pragma ck
      | DownloadArchivePostgresql \<Rightarrow> DownloadArchivePostgresql_init E F path kg table pragma ck
      | DownloadArchivePostgresqlMemory \<Rightarrow>
          DownloadArchivePostgresqlMemory_init E F path kg table pragma ck)"

subsection \<open>connect\<close>

text \<open>\<^verbatim>\<open>path.startswith(("postgres://", "postgresql://"))\<close>\<close>

definition startswith :: "string \<Rightarrow> string \<Rightarrow> bool" where
  "startswith s pre = (take (length pre) s = pre)"

definition is_postgres_uri :: "string \<Rightarrow> bool" where
  "is_postgres_uri path = (startswith path ''postgres://'' \<or> startswith path ''postgresql://'')"

text \<open>
  Lines 60 to 63: expand the table template when item metadata and a non-empty table were
  given, then build an object of whatever class \<open>cls\<close> is bound to.
\<close>

definition connect_construct ::
  "archive_class \<Rightarrow> environment \<Rightarrow> faults \<Rightarrow> string \<Rightarrow> (kwdict \<Rightarrow> key) \<Rightarrow> string option
     \<Rightarrow> string list option \<Rightarrow> kwdict option \<Rightarrow> string option \<Rightarrow> exn + archive" where
  "connect_construct c E F path kg table pragma kwdict ck =
     (let table' = (case kwdict of
                      None \<Rightarrow> table
                    | Some kw \<Rightarrow>
                        (case table of
                           None \<Rightarrow> None
                         | Some t \<Rightarrow> if t = [] then Some t else Some (parse_format E t kw)))
      in construct c E F path kg table' pragma ck)"

definition connect ::
  "environment \<Rightarrow> faults \<Rightarrow> string \<Rightarrow> string \<Rightarrow> string \<Rightarrow> string option \<Rightarrow> string option
     \<Rightarrow> string list option \<Rightarrow> kwdict option \<Rightarrow> string option \<Rightarrow> exn + archive" where
  "connect E F path prefix format table mode pragma kwdict ck =
     (let kg = parse_format E (prefix @ format) in
      if is_postgres_uri path then
        (let c = (if mode = Some ''memory'' then DownloadArchivePostgresqlMemory
                  else DownloadArchivePostgresql) in
         case construct c E F path kg table pragma ck of
           Inr pg \<Rightarrow>
             (let fallback_path = expand_path E ''archive-fallback.sqlite3'' in
              if path_exists E fallback_path
              then Inr (fst (snd (sync_from_sqlite E F pg fallback_path table False)))
              else Inr pg)
         | Inl e \<Rightarrow>
             connect_construct c E F ''archive-fallback.sqlite3'' kg table pragma kwdict ck)
      else
        (let path1 = expand_path E path;
             path2 = (case kwdict of
                        None \<Rightarrow> path1
                      | Some kw \<Rightarrow>
                          if CHR ''{'' \<in> set path1 then parse_format E path1 kw else path1);
             c = (if mode = Some ''memory'' then DownloadArchiveMemory else DownloadArchive)
         in connect_construct c E F path2 kg table pragma kwdict ck))"

section \<open>Notions used to state the properties\<close>

text \<open>The table after the idempotent insert of each key of a list, in order.\<close>

fun insert_all :: "key list \<Rightarrow> key list \<Rightarrow> key list" where
  "insert_all [] rs = rs"
| "insert_all (k # ks) rs = insert_all ks (insert_ignore k rs)"

text \<open>
  What the first failing insert of a batch raises, if one fails, on a table that holds
  \<open>rs\<close> when the batch starts.
\<close>

fun first_fault :: "faults \<Rightarrow> string \<Rightarrow> key list \<Rightarrow> key list \<Rightarrow> exn option" where
  "first_fault F stmt [] rs = None"
| "first_fault F stmt (k # ks) rs =
     (case insert_fault F stmt k rs of
        Some e \<Rightarrow> Some e
      | None \<Rightarrow> first_fault F stmt ks (insert_ignore k rs))"

text \<open>What a batch insert followed by \<open>commit\<close> raises, if either fails.\<close>

definition replay_fault :: "faults \<Rightarrow> string \<Rightarrow> key list \<Rightarrow> key list \<Rightarrow> exn option" where
  "replay_fault F stmt ks rs =
     (case first_fault F stmt ks rs of Some e \<Rightarrow> Some e | None \<Rightarrow> on_commit F)"

text \<open>What the insert of one key followed by \<open>commit\<close> raises, if either fails.\<close>

definition add_fault :: "faults \<Rightarrow> string \<Rightarrow> key \<Rightarrow> key list \<Rightarrow> exn option" where
  "add_fault F stmt k rs =
     (case insert_fault F stmt k rs of Some e \<Rightarrow> Some e | None \<Rightarrow> on_commit F)"

text \<open>The table a rollback leaves: the entries at the start of the open transaction.\<close>

definition rolled_back :: "db_connection \<Rightarrow> key list" where
  "rolled_back c = (case snapshot c of None \<Rightarrow> rows c | Some s \<Rightarrow> s)"

text \<open>The two classes that keep pending keys in \<open>self.keys\<close>.\<close>

definition is_memory :: "archive \<Rightarrow> bool" where
  "is_memory a = (cls a = DownloadArchiveMemory \<or> cls a = DownloadArchivePostgresqlMemory)"





section \<open>Concrete environments and archives\<close>

text \<open>
  A local store that can be opened once its directory exists: the first
  \<open>sqlite3.connect\<close> raises, the one after \<open>os.makedirs\<close> succeeds.
\<close>

definition opens_on_retry :: environment where
  "opens_on_retry =
     \<lparr>sqlite3_connect = (\<lambda>_. Inl Sqlite3_OperationalError),
      sqlite3_connect_retry = (\<lambda>_. Inr []),
      makedirs_outcome = (\<lambda>_. None),
      remove_outcome = (\<lambda>_. None),
      path_exists = (\<lambda>_. False),
      psycopg_import = None,
      psycopg_connect = (\<lambda>_. Inl (OtherException ''connection refused'')),
      expand_path = (\<lambda>p. p),
      parse_format = (\<lambda>s kw. s)\<rparr>"

text \<open>A key formatter: the item's \<open>id\<close> field after a fixed prefix.\<close>

definition example_keygen :: "kwdict \<Rightarrow> key" where
  "example_keygen kw = ''item'' @ (case kw ''id'' of None \<Rightarrow> [] | Some v \<Rightarrow> v)"

text \<open>An archive of a given class over a table holding \<open>rs\<close>, with pending keys \<open>ks\<close>.\<close>

definition example_archive :: "archive_class \<Rightarrow> key list \<Rightarrow> key list \<Rightarrow> archive" where
  "example_archive c rs ks =
     \<lparr>cls = c, keygen = example_keygen, connection = new_connection rs,
      cache_key = ''_archive_key'',
      stmt_select = (if c = DownloadArchive \<or> c = DownloadArchiveMemory
                     then sqlite_stmt_select ''archive'' else pg_stmt_select ''archive''),
      stmt_insert = (if c = DownloadArchive \<or> c = DownloadArchiveMemory
                     then sqlite_stmt_insert ''archive'' else pg_stmt_insert ''archive''),
      keys = ks\<rparr>"

text \<open>
  The fallback file exists and holds the entries \<open>ks\<close>; removing it is refused.
\<close>

definition fallback_holds :: "key list \<Rightarrow> environment" where
  "fallback_holds ks =
     \<lparr>sqlite3_connect = (\<lambda>_. Inr ks),
      sqlite3_connect_retry = (\<lambda>_. Inr ks),
      makedirs_outcome = (\<lambda>_. None),
      remove_outcome = (\<lambda>_. Some (OtherException ''permission denied'')),
      path_exists = (\<lambda>_. True),
      psycopg_import = None,
      psycopg_connect = (\<lambda>_. Inr []),
      expand_path = (\<lambda>p. p),
      parse_format = (\<lambda>s kw. s)\<rparr>"






text \<open>An archive whose insert statement is a plain \<open>INSERT\<close>.\<close>

definition plain_insert_archive :: "key list \<Rightarrow> archive" where
  "plain_insert_archive rs =
     (example_archive DownloadArchive rs [])\<lparr>stmt_insert := ''INSERT INTO archive (entry) VALUES (?)''\<rparr>"

text \<open>
  An item whose reserved field holds a key other than the one the formatter gives it now.
\<close>

definition stale_item :: kwdict where
  "stale_item = [''id'' \<mapsto> ''1'', ''_archive_key'' \<mapsto> ''cached'']"

text \<open>The server is gone: every insert or select raises, and so does \<open>rollback\<close>.\<close>

definition connection_lost :: faults where
  "connection_lost =
     \<lparr>on_statement = (\<lambda>_. None),
      on_execute = (\<lambda>_. Some (OtherException ''server closed the connection unexpectedly'')),
      on_conflict = (\<lambda>_. None),
      on_commit = None,
      on_rollback = Some (OtherException ''the connection is closed''),
      on_close = None\<rparr>"

section \<open>Properties\<close>

subsection \<open>Properties of the table-name sanitizer\<close>

lemma replace_quotes_no_quote: "dquote \<notin> set (replace_quotes name)"
  by (auto simp: replace_quotes_def dquote_def)

lemma scan_quoted_plain:
  "dquote \<notin> set body \<Longrightarrow> scan_quoted (body @ dquote # CHR '' '' # rest) = Some (body, CHR '' '' # rest)"
proof (induction body)
  case Nil
  then show ?case by (simp add: dquote_def)
next
  case (Cons c cs)
  then show ?case by (cases cs) (auto simp: dquote_def)
qed


lemma replace_quotes_length: "length (replace_quotes name) = length name"
  by (simp add: replace_quotes_def)

lemma scan_quoted_closed:
  "dquote \<notin> set body \<Longrightarrow> suf = [] \<or> hd suf \<noteq> dquote \<Longrightarrow>
   scan_quoted (body @ dquote # suf) = Some (body, suf)"
proof (induction body)
  case Nil
  then show ?case by (cases suf) auto
next
  case (Cons c cs)
  then show ?case by (cases cs) (auto split: list.splits)
qed

lemma lex_table_sanitized:
  "suf = [] \<or> hd suf \<noteq> dquote \<Longrightarrow> lex_table (sanitize name @ suf) = Some (replace_quotes name, suf)"
  by (simp add: lex_table_def sanitize_def scan_quoted_closed replace_quotes_no_quote)

lemma strip_prefix_append: "strip_prefix pre (pre @ s) = Some s"
  by (simp add: strip_prefix_def)

lemma match_form_sanitized:
  "suf = [] \<or> hd suf \<noteq> dquote \<Longrightarrow>
   match_form (kind, pre, suf') (pre @ sanitize name @ suf)
     = (if suf = suf' then Some (kind, replace_quotes name) else None)"
  by (simp add: match_form_def strip_prefix_append lex_table_sanitized)

lemma match_form_other_prefix:
  "take (length pre) stmt \<noteq> pre \<Longrightarrow> match_form (kind, pre, suf) stmt = None"
  by (simp add: match_form_def strip_prefix_def)












lemma replace_quotes_member:
  "c \<noteq> dquote \<Longrightarrow> c \<noteq> CHR ''_'' \<Longrightarrow> c \<in> set (replace_quotes name) \<longleftrightarrow> c \<in> set name"
  by (induction name) (auto simp: replace_quotes_def)


lemma nul_replace_quotes: "CHR 0x00 \<in> set (replace_quotes name) \<longleftrightarrow> CHR 0x00 \<in> set name"
  using replace_quotes_member [of "CHR 0x00" name] by (simp add: dquote_def)




















subsection \<open>Tables under the idempotent insert\<close>

lemma set_insert_ignore: "set (insert_ignore k rs) = insert k (set rs)"
  by (auto simp: insert_ignore_def)


lemma set_insert_all: "set (insert_all ks rs) = set rs \<union> set ks"
  by (induction ks arbitrary: rs) (auto simp: set_insert_ignore)


lemma insert_all_prefix: "take (length rs) (insert_all ks rs) = rs"
proof (induction ks arbitrary: rs)
  case Nil
  then show ?case by simp
next
  case (Cons k ks)
  have "take (length rs) (insert_all ks (insert_ignore k rs))
          = take (length rs) (take (length (insert_ignore k rs)) (insert_all ks (insert_ignore k rs)))"
    by (simp add: insert_ignore_def min_def)
  also have "\<dots> = take (length rs) (insert_ignore k rs)"
    by (simp only: Cons.IH)
  also have "\<dots> = rs"
    by (simp add: insert_ignore_def)
  finally show ?case by simp
qed


lemma insert_fault_no_faults: "insert_fault no_faults stmt k rs = None"
  by (simp add: insert_fault_def no_faults_def)

lemma select_fault_no_faults: "select_fault no_faults stmt k = None"
  by (simp add: select_fault_def no_faults_def)

lemma insert_rows_fst: "fst (insert_rows F stmt ks c) = first_fault F stmt ks (rows c)"
  by (induction ks arbitrary: c) (auto simp: insert_row_def split: option.splits)

lemma insert_rows_snapshot: "snapshot (snd (insert_rows F stmt ks c)) = snapshot c"
  by (induction ks arbitrary: c) (auto simp: insert_row_def split: option.splits)

lemma insert_rows_executed: "executed (snd (insert_rows F stmt ks c)) = executed c"
  by (induction ks arbitrary: c) (auto simp: insert_row_def split: option.splits)

lemma insert_rows_ok:
  "first_fault F stmt ks (rows c) = None \<Longrightarrow>
   insert_rows F stmt ks c = (None, c\<lparr>rows := insert_all ks (rows c)\<rparr>)"
  by (induction ks arbitrary: c) (auto simp: insert_row_def split: option.splits)

lemma first_fault_no_faults: "first_fault no_faults stmt ks rs = None"
  by (induction ks arbitrary: rs) (auto simp: insert_fault_no_faults)

lemma execute_each_ok:
  "first_fault F stmt ks (rows c) = None \<Longrightarrow>
   execute_each F stmt ks c =
     (None, c\<lparr>rows := insert_all ks (rows c), executed := executed c @ map (\<lambda>k. (stmt, [k])) ks\<rparr>)"
  by (induction ks arbitrary: c)
     (auto simp: insert_row_def sqlite_execute_insert_def issue_def split: option.splits)

subsection \<open>Opening the embedded store\<close>

lemma dirname_bare: "CHR ''/'' \<notin> set path \<Longrightarrow> dirname path = []"
proof -
  assume h: "CHR ''/'' \<notin> set path"
  have "\<forall>c\<in>set (rev path). c \<noteq> CHR ''/''"
    using h by auto
  then have "dropWhile (\<lambda>c. c \<noteq> CHR ''/'') (rev path) = []"
    by (simp only: dropWhile_eq_Nil_conv)
  then show ?thesis by (simp add: dirname_def)
qed

lemma open_store_retry:
  "sqlite3_connect E path = Inl Sqlite3_OperationalError \<Longrightarrow> dirname path \<noteq> [] \<Longrightarrow>
   makedirs_outcome E (dirname path) = None \<Longrightarrow> open_store E path = sqlite3_connect_retry E path"
  by (simp add: open_store_def os_makedirs_def)

text \<open>
  C10.  A path with no directory part (no \<open>/\<close>) has the empty string as its dirname.  If
  the first open of such a path raises \<open>sqlite3.OperationalError\<close>, the handler calls
  \<open>os.makedirs\<close> on the empty string, which raises \<open>FileNotFoundError\<close>: construction of
  the embedded archive (plain or memory) fails with that exception and the second open is
  never made, whatever it would have answered.
\<close>

theorem bare_filename_never_retries:
  assumes "CHR ''/'' \<notin> set path"
      and "sqlite3_connect E path = Inl Sqlite3_OperationalError"
  shows "dirname path = []
         \<and> os_makedirs E (dirname path) = Some FileNotFoundError
         \<and> open_store E path = Inl FileNotFoundError
         \<and> DownloadArchive_init E F path kg table pragma ck = Inl FileNotFoundError
         \<and> DownloadArchiveMemory_init E F path kg table pragma ck = Inl FileNotFoundError"
proof -
  have d: "dirname path = []" using assms(1) by (rule dirname_bare)
  have m: "os_makedirs E (dirname path) = Some FileNotFoundError"
    by (simp add: d os_makedirs_def)
  have s: "open_store E path = Inl FileNotFoundError"
    by (simp add: open_store_def assms(2) m)
  have i: "DownloadArchive_init E F path kg table pragma ck = Inl FileNotFoundError"
    by (simp add: DownloadArchive_init_def s)
  have j: "DownloadArchiveMemory_init E F path kg table pragma ck = Inl FileNotFoundError"
    by (simp add: DownloadArchiveMemory_init_def i)
  show ?thesis
    using d m s i j by blast
qed

text \<open>
  At the fallback path \<open>archive-fallback.sqlite3\<close>, in an environment where the retry
  would have opened the store.
\<close>

theorem bare_filename_never_retries_witness:
  "CHR ''/'' \<notin> set ''archive-fallback.sqlite3''
   \<and> sqlite3_connect opens_on_retry ''archive-fallback.sqlite3'' = Inl Sqlite3_OperationalError
   \<and> sqlite3_connect_retry opens_on_retry ''archive-fallback.sqlite3'' = Inr []
   \<and> dirname ''archive-fallback.sqlite3'' = []
   \<and> DownloadArchive_init opens_on_retry no_faults ''archive-fallback.sqlite3'' (\<lambda>_. ''k'') None None None
       = Inl FileNotFoundError"
proof -
  have a: "CHR ''/'' \<notin> set ''archive-fallback.sqlite3''" by simp
  have b: "sqlite3_connect opens_on_retry ''archive-fallback.sqlite3'' = Inl Sqlite3_OperationalError"
    by (simp add: opens_on_retry_def)
  have c: "sqlite3_connect_retry opens_on_retry ''archive-fallback.sqlite3'' = Inr []"
    by (simp add: opens_on_retry_def)
  show ?thesis
    using a b c bare_filename_never_retries [OF a b, of no_faults "\<lambda>_. ''k''" None None None]
    by simp
qed

subsection \<open>connect on a PostgreSQL location\<close>

lemma DownloadArchive_init_cls:
  "DownloadArchive_init E F path kg table pragma ck = Inr a \<Longrightarrow> cls a = DownloadArchive"
  by (auto simp: DownloadArchive_init_def split: sum.splits prod.splits option.splits)

lemma DownloadArchivePostgresql_init_cls:
  "DownloadArchivePostgresql_init E F path kg table pragma ck = Inr a \<Longrightarrow> cls a = DownloadArchivePostgresql"
  by (auto simp: DownloadArchivePostgresql_init_def split: sum.splits prod.splits option.splits)

lemma construct_cls: "construct c E F path kg table pragma ck = Inr a \<Longrightarrow> cls a = c"
  by (cases c)
     (auto simp: construct_def DownloadArchiveMemory_init_def DownloadArchivePostgresqlMemory_init_def
           dest: DownloadArchive_init_cls DownloadArchivePostgresql_init_cls split: sum.splits)

lemma sync_from_sqlite_cls: "cls (fst (snd (sync_from_sqlite E F a p table d))) = cls a"
  by (simp add: sync_from_sqlite_def Let_def split: sum.splits option.splits prod.splits)

text \<open>
  Whatever the environment, an archive that \<open>connect\<close> returns for a PostgreSQL location
  is of a PostgreSQL class: after a failed construction \<open>cls\<close> is still bound to that
  class when line 63 builds the object for the fallback path.
\<close>

lemma connect_postgres_cls:
  assumes "is_postgres_uri path"
      and "connect E F path prefix format table mode pragma kwdict ck = Inr a"
  shows "cls a = (if mode = Some ''memory'' then DownloadArchivePostgresqlMemory
                  else DownloadArchivePostgresql)"
  using assms
  by (auto simp: connect_def connect_construct_def Let_def sync_from_sqlite_cls
           dest!: construct_cls split: sum.splits if_splits)

lemma construct_postgres_unreachable:
  "psycopg_connect E path = Inl e \<Longrightarrow> psycopg_import E = None \<Longrightarrow>
   c = DownloadArchivePostgresql \<or> c = DownloadArchivePostgresqlMemory \<Longrightarrow>
   construct c E F path kg table pragma ck = Inl e"
  by (auto simp: construct_def DownloadArchivePostgresql_init_def DownloadArchivePostgresqlMemory_init_def)

text \<open>
  C1.  In any environment where \<open>psycopg.connect\<close> raises \<open>e\<close> for every location,
  whatever \<open>sqlite3.connect\<close> would answer for the fallback file, \<open>connect\<close> on a
  PostgreSQL location does not return an embedded archive on the fallback file: the
  second construction calls \<open>psycopg.connect\<close> on \<open>archive-fallback.sqlite3\<close>, and
  \<open>e\<close> leaves \<open>connect\<close>.
\<close>

theorem connect_unreachable_postgres_raises:
  "connect (E\<lparr>psycopg_import := None, psycopg_connect := (\<lambda>_. Inl e)\<rparr>) F
     ''postgresql://db.example/archive'' prefix format table mode pragma kwdict ck = Inl e"
proof -
  let ?E = "E\<lparr>psycopg_import := None, psycopg_connect := (\<lambda>_. Inl e)\<rparr>"
  have u: "is_postgres_uri ''postgresql://db.example/archive''"
    by (simp add: is_postgres_uri_def startswith_def)
  have c: "\<And>c path t. c = DownloadArchivePostgresql \<or> c = DownloadArchivePostgresqlMemory \<Longrightarrow>
        construct c ?E F path kg t pragma ck = Inl e" for kg
    by (rule construct_postgres_unreachable) simp_all
  show ?thesis
    by (simp add: connect_def u Let_def c connect_construct_def del: environment.simps)
qed

subsection \<open>Batches on a PostgreSQL connection\<close>

lemma rolled_back_begin: "snapshot (pg_begin_implicit c) = Some (rolled_back c)"
  by (simp add: pg_begin_implicit_def rolled_back_def split: option.splits)

lemma rows_begin: "rows (pg_begin_implicit c) = rows c"
  by (simp add: pg_begin_implicit_def split: option.splits)

lemma executed_begin: "executed (pg_begin_implicit c) = executed c"
  by (simp add: pg_begin_implicit_def split: option.splits)

lemma batch_fst: "fst (then_commit F (pg_executemany F stmt ks c)) = replay_fault F stmt ks (rows c)"
proof (cases "first_fault F stmt ks (rows c)")
  case None
  then show ?thesis
    by (simp add: then_commit_def pg_executemany_def insert_rows_ok replay_fault_def commit_def
          issue_def rows_begin split: option.splits)
next
  case (Some e)
  then have "fst (insert_rows F stmt ks (issue stmt ks (pg_begin_implicit c))) = Some e"
    by (simp add: insert_rows_fst issue_def rows_begin)
  then show ?thesis
    using Some by (cases "insert_rows F stmt ks (issue stmt ks (pg_begin_implicit c))")
      (simp add: then_commit_def pg_executemany_def replay_fault_def)
qed

lemma batch_snapshot:
  "snapshot (snd (then_commit F (pg_executemany F stmt ks c)))
     = (if replay_fault F stmt ks (rows c) = None then None else Some (rolled_back c))"
proof (cases "first_fault F stmt ks (rows c)")
  case None
  then show ?thesis
    by (simp add: then_commit_def pg_executemany_def insert_rows_ok replay_fault_def commit_def
          issue_def rolled_back_begin rows_begin split: option.splits)
next
  case (Some e)
  have s: "snapshot (snd (insert_rows F stmt ks (issue stmt ks (pg_begin_implicit c)))) = Some (rolled_back c)"
    by (simp add: insert_rows_snapshot issue_def rolled_back_begin)
  have "fst (insert_rows F stmt ks (issue stmt ks (pg_begin_implicit c))) = Some e"
    using Some by (simp add: insert_rows_fst issue_def rows_begin)
  then show ?thesis
    using Some s by (cases "insert_rows F stmt ks (issue stmt ks (pg_begin_implicit c))")
      (simp add: then_commit_def pg_executemany_def replay_fault_def)
qed

lemma batch_rows:
  "replay_fault F stmt ks (rows c) = None \<Longrightarrow>
   rows (snd (then_commit F (pg_executemany F stmt ks c))) = insert_all ks (rows c)"
  by (simp add: then_commit_def pg_executemany_def insert_rows_ok replay_fault_def commit_def
        issue_def rows_begin split: option.splits)

lemma batch_executed:
  "executed (snd (then_commit F (pg_executemany F stmt ks c))) = executed c @ [(stmt, ks)]"
proof -
  have e: "executed (snd (insert_rows F stmt ks (issue stmt ks (pg_begin_implicit c)))) = executed c @ [(stmt, ks)]"
    by (simp add: insert_rows_executed issue_def executed_begin)
  show ?thesis
    using e by (cases "insert_rows F stmt ks (issue stmt ks (pg_begin_implicit c))")
      (auto simp: then_commit_def pg_executemany_def commit_def split: option.splits)
qed

lemma replay_fault_no_faults: "replay_fault no_faults stmt ks rs = None"
  by (simp add: replay_fault_def first_fault_no_faults) (simp add: no_faults_def)

subsection \<open>sync\_from\_sqlite\<close>

lemma sync_unfold:
  assumes "sqlite3_connect E (expand_path E p) = Inr fetched" "fetched \<noteq> []"
      and "on_statement F (sync_stmt_select table) = None"
  shows "sync_from_sqlite E F a p table d =
          (case then_commit F (pg_executemany F (stmt_insert a) fetched (connection a)) of
                    (None, c) \<Rightarrow>
                      (Inr (length fetched), a\<lparr>connection := c\<rparr>,
                       d \<and> on_close F = None \<and> remove_outcome E (expand_path E p) = None)
                  | (Some e, c) \<Rightarrow>
                      (case rollback F c of
                         (None, c1) \<Rightarrow> (Inl e, a\<lparr>connection := c1\<rparr>, False)
                       | (Some e', c1) \<Rightarrow> (Inl e', a\<lparr>connection := c1\<rparr>, False)))"
  using assms by (simp add: sync_from_sqlite_def Let_def)




text \<open>
  C2, as the code has it.  Without driver faults \<open>sync_from_sqlite\<close> returns the number
  of rows read from the fallback store, whether or not they were already in the
  networked table; the table gains the rows it did not hold and keeps the ones it held,
  in place.
\<close>

theorem sync_returns_rows_read:
  assumes "sqlite3_connect E (expand_path E p) = Inr fetched"
  shows "fst (sync_from_sqlite E no_faults a p table d) = Inr (length fetched)
         \<and> rows (connection (fst (snd (sync_from_sqlite E no_faults a p table d))))
             = insert_all fetched (rows (connection a))
         \<and> set (rows (connection (fst (snd (sync_from_sqlite E no_faults a p table d)))))
             = set (rows (connection a)) \<union> set fetched
         \<and> take (length (rows (connection a)))
              (rows (connection (fst (snd (sync_from_sqlite E no_faults a p table d)))))
             = rows (connection a)"
proof -
  have n: "on_statement no_faults (sync_stmt_select table) = None"
    by (simp add: no_faults_def)
  have fr: "fst (sync_from_sqlite E no_faults a p table d) = Inr (length fetched)
            \<and> rows (connection (fst (snd (sync_from_sqlite E no_faults a p table d))))
                = insert_all fetched (rows (connection a))"
  proof (cases "fetched = []")
    case True
    then show ?thesis using assms n by (simp add: sync_from_sqlite_def Let_def)
  next
    case False
    obtain r c where rc:
      "then_commit no_faults (pg_executemany no_faults (stmt_insert a) fetched (connection a)) = (r, c)"
      by (cases "then_commit no_faults (pg_executemany no_faults (stmt_insert a) fetched (connection a))")
    have r: "r = None"
      using batch_fst [of no_faults "stmt_insert a" fetched "connection a"] rc
      by (simp add: replay_fault_no_faults)
    have c: "rows c = insert_all fetched (rows (connection a))"
      using batch_rows [OF replay_fault_no_faults, of "stmt_insert a" fetched "connection a"] rc
      by simp
    show ?thesis
      unfolding sync_unfold [OF assms False n] rc r using c by simp
  qed
  show ?thesis
    using fr by (simp add: set_insert_all insert_all_prefix)
qed

text \<open>Fallback store \<open>{a, b, c}\<close>, networked table \<open>{b}\<close>: the result is 3.\<close>

theorem sync_returns_rows_read_witness:
  "fst (sync_from_sqlite (fallback_holds [''a'', ''b'', ''c'']) no_faults
          (example_archive DownloadArchivePostgresql [''b''] []) ''archive-fallback.sqlite3'' None False)
     = Inr 3
   \<and> rows (connection (fst (snd (sync_from_sqlite (fallback_holds [''a'', ''b'', ''c'']) no_faults
          (example_archive DownloadArchivePostgresql [''b''] []) ''archive-fallback.sqlite3'' None False))))
     = [''b'', ''a'', ''c'']"
proof -
  let ?E = "fallback_holds [''a'', ''b'', ''c'']"
  let ?a = "example_archive DownloadArchivePostgresql [''b''] []"
  have h1: "sqlite3_connect ?E (expand_path ?E ''archive-fallback.sqlite3'') = Inr [''a'', ''b'', ''c'']"
    by (simp add: fallback_holds_def)
  have b: "rows (connection ?a) = [''b'']"
    by (simp add: example_archive_def new_connection_def)
  show ?thesis
    using sync_returns_rows_read [OF h1, of ?a None False]
    by (simp add: b insert_ignore_def)
qed

text \<open>C2 as stated fails there: the count returned is not 2.\<close>

theorem sync_count_counterexample:
  "fst (sync_from_sqlite (fallback_holds [''a'', ''b'', ''c'']) no_faults
          (example_archive DownloadArchivePostgresql [''b''] []) ''archive-fallback.sqlite3'' None False)
     \<noteq> Inr 2"
proof -
  have "fst (sync_from_sqlite (fallback_holds [''a'', ''b'', ''c'']) no_faults
          (example_archive DownloadArchivePostgresql [''b''] []) ''archive-fallback.sqlite3'' None False)
     = Inr 3"
    by (simp add: sync_from_sqlite_def Let_def fallback_holds_def no_faults_def
          then_commit_def pg_executemany_def insert_row_def insert_fault_def commit_def)
  then show ?thesis by simp
qed

subsection \<open>Keys: check computes, add reuses\<close>

lemma check_stores_key: "fst (snd (archive_check F a kw)) = kw(cache_key a \<mapsto> keygen a kw)"
  by (cases "cls a")
     (auto simp: archive_check_def DownloadArchive_check_def DownloadArchiveMemory_check_def
        DownloadArchivePostgresql_check_def DownloadArchivePostgresqlMemory_check_def Let_def
        split: prod.splits sum.splits option.splits)

lemma select_row_no_faults: "select_row no_faults stmt k c = (Inr (k \<in> set (rows c)), issue stmt [k] c)"
  by (simp add: select_row_def select_fault_no_faults)

lemma pg_select_row_no_faults:
  "pg_select_row no_faults stmt k c = (Inr (k \<in> set (rows c)), issue stmt [k] (pg_begin_implicit c))"
  by (simp add: pg_select_row_def select_row_no_faults rows_begin)

lemma check_no_faults:
  "fst (archive_check no_faults a kw) =
     Inr (if is_memory a \<and> keygen a kw \<in> set (keys a) then PyTrue
          else fetchone (keygen a kw \<in> set (rows (connection a))))"
  by (cases "cls a")
     (simp_all add: archive_check_def DownloadArchive_check_def DownloadArchiveMemory_check_def
        DownloadArchivePostgresql_check_def DownloadArchivePostgresqlMemory_check_def Let_def
        select_row_no_faults pg_select_row_no_faults is_memory_def)

lemma insert_row_no_faults:
  "insert_row no_faults stmt k c = (None, c\<lparr>rows := insert_ignore k (rows c)\<rparr>)"
  by (simp add: insert_row_def insert_fault_no_faults)

lemma commit_no_faults: "commit no_faults c = (None, c\<lparr>snapshot := None\<rparr>)"
  by (simp add: commit_def no_faults_def)

lemma add_memory:
  "is_memory a \<Longrightarrow>
   archive_add F a kw = (Inr (), a\<lparr>keys := List.insert (cached_or_keygen a kw) (keys a)\<rparr>)"
  by (auto simp: is_memory_def archive_add_def DownloadArchiveMemory_add_def
        DownloadArchivePostgresqlMemory_add_def)

lemma add_physical_no_faults:
  "\<not> is_memory a \<Longrightarrow>
   fst (archive_add no_faults a kw) = Inr ()
   \<and> rows (connection (snd (archive_add no_faults a kw)))
       = insert_ignore (cached_or_keygen a kw) (rows (connection a))
   \<and> keys (snd (archive_add no_faults a kw)) = keys a
   \<and> cls (snd (archive_add no_faults a kw)) = cls a
   \<and> keygen (snd (archive_add no_faults a kw)) = keygen a
   \<and> cache_key (snd (archive_add no_faults a kw)) = cache_key a"
  by (cases "cls a")
     (simp_all add: is_memory_def archive_add_def DownloadArchive_add_def DownloadArchivePostgresql_add_def
        Let_def sqlite_execute_insert_def pg_execute_insert_def insert_row_no_faults then_commit_def
        commit_no_faults issue_def rows_begin)

text \<open>
  C3, as the code has it.  In every class \<open>check\<close> computes the key with the key
  formatter, whatever the reserved field of the item holds, stores that key under the
  reserved field, and looks that key up (in the pending keys of a memory class, then in
  the table).  Only \<open>add\<close> reuses the key under the reserved field, when it is not
  empty, and otherwise computes it.
\<close>

theorem check_recomputes_key:
  "fst (snd (archive_check F a kw)) = kw(cache_key a \<mapsto> keygen a kw)
   \<and> fst (archive_check no_faults a kw) =
       Inr (if is_memory a \<and> keygen a kw \<in> set (keys a) then PyTrue
            else fetchone (keygen a kw \<in> set (rows (connection a))))
   \<and> cached_or_keygen a (kw(cache_key a \<mapsto> v)) =
       (if v = [] then keygen a (kw(cache_key a \<mapsto> v)) else v)
   \<and> (if is_memory a
       then keys (snd (archive_add no_faults a kw)) = List.insert (cached_or_keygen a kw) (keys a)
       else rows (connection (snd (archive_add no_faults a kw)))
              = insert_ignore (cached_or_keygen a kw) (rows (connection a)))"
proof -
  have c: "cached_or_keygen a (kw(cache_key a \<mapsto> v)) =
       (if v = [] then keygen a (kw(cache_key a \<mapsto> v)) else v)"
    by (simp add: cached_or_keygen_def)
  have d: "if is_memory a
       then keys (snd (archive_add no_faults a kw)) = List.insert (cached_or_keygen a kw) (keys a)
       else rows (connection (snd (archive_add no_faults a kw)))
              = insert_ignore (cached_or_keygen a kw) (rows (connection a))"
    using add_memory [of a no_faults kw] add_physical_no_faults [of a kw] by (cases "is_memory a") simp_all
  show ?thesis
    using check_stores_key [of F a kw] check_no_faults [of a kw] c d by blast
qed

text \<open>
  C3 as stated fails on an item that carries the key \<open>cached\<close>, which the table holds:
  \<open>check\<close> looks up the recomputed key \<open>item1\<close>, finds nothing, and overwrites the
  reserved field with \<open>item1\<close>.
\<close>

theorem check_cached_key_counterexample:
  "fst (archive_check no_faults (example_archive DownloadArchive [''cached''] []) stale_item) = Inr PyNone
   \<and> fst (snd (archive_check no_faults (example_archive DownloadArchive [''cached''] []) stale_item))
        ''_archive_key'' = Some ''item1''
   \<and> stale_item ''_archive_key'' = Some ''cached''"
  by (simp add: archive_check_def DownloadArchive_check_def example_archive_def Let_def
        select_row_no_faults new_connection_def example_keygen_def stale_item_def fetchone_def)

subsection \<open>finalize of the memory classes\<close>

lemma sqlite_begin_cases:
  "sqlite_begin no_faults c = (r, c0) \<Longrightarrow>
   (r = None \<or> r = Some Sqlite3_OperationalError) \<and> rows c0 = rows c"
  by (auto simp: sqlite_begin_def sqlite_execute_statement_def no_faults_def issue_def
        split: option.splits)

lemma sqlite_inserts_rows:
  "rows (snd (if length ks < 100 then execute_each no_faults stmt ks c
              else sqlite_executemany no_faults stmt ks c)) = insert_all ks (rows c)
   \<and> fst (if length ks < 100 then execute_each no_faults stmt ks c
              else sqlite_executemany no_faults stmt ks c) = None"
  by (simp add: execute_each_ok first_fault_no_faults sqlite_executemany_def insert_rows_ok issue_def)

lemma connection_exit_ok:
  "connection_exit no_faults None c = (None, c\<lparr>snapshot := None\<rparr>)"
  by (simp add: connection_exit_def commit_no_faults)

lemma memory_finalize_sqlite:
  "keys a \<noteq> [] \<Longrightarrow>
   fst (DownloadArchiveMemory_finalize no_faults a) = Inr ()
   \<and> rows (connection (snd (DownloadArchiveMemory_finalize no_faults a)))
        = insert_all (keys a) (rows (connection a))
   \<and> snapshot (connection (snd (DownloadArchiveMemory_finalize no_faults a))) = None"
proof -
  assume k: "keys a \<noteq> []"
  obtain r c0 where b: "sqlite_begin no_faults (connection a) = (r, c0)"
    by (cases "sqlite_begin no_faults (connection a)")
  have rc: "(r = None \<or> r = Some Sqlite3_OperationalError) \<and> rows c0 = rows (connection a)"
    using b by (rule sqlite_begin_cases)
  let ?ins = "if length (keys a) < 100 then execute_each no_faults (stmt_insert a) (keys a) c0
              else sqlite_executemany no_faults (stmt_insert a) (keys a) c0"
  have i: "rows (snd ?ins) = insert_all (keys a) (rows (connection a)) \<and> fst ?ins = None"
    using sqlite_inserts_rows [of "keys a" "stmt_insert a" c0] rc by simp
  have f: "DownloadArchiveMemory_finalize no_faults a
             = (Inr (), a\<lparr>connection := (snd ?ins)\<lparr>snapshot := None\<rparr>\<rparr>)"
    using k rc i
    by (auto simp: DownloadArchiveMemory_finalize_def Let_def b connection_exit_ok)
  show ?thesis
    using i by (simp add: f)
qed

lemma memory_finalize_pg:
  "keys a \<noteq> [] \<Longrightarrow>
   fst (DownloadArchivePostgresqlMemory_finalize no_faults a) = Inr ()
   \<and> rows (connection (snd (DownloadArchivePostgresqlMemory_finalize no_faults a)))
        = insert_all (keys a) (rows (connection a))
   \<and> snapshot (connection (snd (DownloadArchivePostgresqlMemory_finalize no_faults a))) = None"
proof -
  assume k: "keys a \<noteq> []"
  obtain r c where rc:
    "then_commit no_faults (pg_executemany no_faults (stmt_insert a) (keys a) (connection a)) = (r, c)"
    by (cases "then_commit no_faults (pg_executemany no_faults (stmt_insert a) (keys a) (connection a))")
  have r: "r = None"
    using batch_fst [of no_faults "stmt_insert a" "keys a" "connection a"] rc
    by (simp add: replay_fault_no_faults)
  have c: "rows c = insert_all (keys a) (rows (connection a))"
    using batch_rows [OF replay_fault_no_faults, of "stmt_insert a" "keys a" "connection a"] rc
    by simp
  have s: "snapshot c = None"
    using batch_snapshot [of no_faults "stmt_insert a" "keys a" "connection a"] rc
    by (simp add: replay_fault_no_faults)
  show ?thesis
    using k c s by (simp add: DownloadArchivePostgresqlMemory_finalize_def rc r)
qed

lemma finalize_keeps_keys: "keys (snd (archive_finalize F a)) = keys a"
  by (cases "cls a")
     (auto simp: archive_finalize_def DownloadArchive_finalize_def DownloadArchivePostgresql_finalize_def
        DownloadArchiveMemory_finalize_def DownloadArchivePostgresqlMemory_finalize_def Let_def
        split: prod.splits option.splits)

lemma finalize_memory_no_faults:
  "is_memory a \<Longrightarrow>
   fst (archive_finalize no_faults a) = Inr ()
   \<and> rows (connection (snd (archive_finalize no_faults a))) = insert_all (keys a) (rows (connection a))
   \<and> snapshot (connection (snd (archive_finalize no_faults a)))
       = (if keys a = [] then snapshot (connection a) else None)"
proof (cases "keys a = []")
  case True
  assume "is_memory a"
  then show ?thesis
    using True
    by (auto simp: is_memory_def archive_finalize_def DownloadArchiveMemory_finalize_def
          DownloadArchivePostgresqlMemory_finalize_def)
next
  case False
  assume "is_memory a"
  then show ?thesis
    using False memory_finalize_sqlite [OF False] memory_finalize_pg [OF False]
    by (auto simp: is_memory_def archive_finalize_def)
qed

text \<open>
  C4, as the code has it.  Without driver faults \<open>finalize\<close> of a memory class inserts
  every pending key into the table with the idempotent insert and commits; the pending
  keys themselves are left as they were (with or without faults), not discarded.
\<close>

theorem finalize_flushes_keeps_pending:
  assumes "is_memory a"
  shows "fst (archive_finalize no_faults a) = Inr ()
         \<and> rows (connection (snd (archive_finalize no_faults a)))
             = insert_all (keys a) (rows (connection a))
         \<and> set (keys a) \<subseteq> set (rows (connection (snd (archive_finalize no_faults a))))
         \<and> snapshot (connection (snd (archive_finalize no_faults a)))
             = (if keys a = [] then snapshot (connection a) else None)
         \<and> keys (snd (archive_finalize F a)) = keys a"
  using finalize_memory_no_faults [OF assms] finalize_keeps_keys [of F a]
  by (simp add: set_insert_all)

text \<open>Table \<open>{item1}\<close>, pending keys \<open>{item2, item1}\<close>.\<close>

theorem finalize_flushes_keeps_pending_witness:
  "is_memory (example_archive DownloadArchiveMemory [''item1''] [''item2'', ''item1''])
   \<and> rows (connection (snd (archive_finalize no_faults
         (example_archive DownloadArchiveMemory [''item1''] [''item2'', ''item1'']))))
       = [''item1'', ''item2'']
   \<and> keys (snd (archive_finalize no_faults
         (example_archive DownloadArchiveMemory [''item1''] [''item2'', ''item1''])))
       = [''item2'', ''item1'']"
proof -
  let ?a = "example_archive DownloadArchiveMemory [''item1''] [''item2'', ''item1'']"
  have m: "is_memory ?a" by (simp add: is_memory_def example_archive_def)
  have k: "keys ?a = [''item2'', ''item1'']" "rows (connection ?a) = [''item1'']"
    by (simp_all add: example_archive_def new_connection_def)
  show ?thesis
    using m finalize_flushes_keeps_pending [OF m, of no_faults]
    by (simp add: k insert_ignore_def)
qed

text \<open>C4 as stated fails: after \<open>finalize\<close> the pending key is still there.\<close>

theorem finalize_pending_counterexample:
  "keys (snd (archive_finalize no_faults (example_archive DownloadArchiveMemory [] [''item1''])))
     = [''item1'']
   \<and> keys (snd (archive_finalize no_faults (example_archive DownloadArchivePostgresqlMemory [] [''item1''])))
     = [''item1'']"
  by (simp add: finalize_keeps_keys) (simp add: example_archive_def)

subsection \<open>Failures on the PostgreSQL connection\<close>

lemma pg_add_outcome:
  "fst (DownloadArchivePostgresql_add F a kw)
     = (case add_fault F (stmt_insert a) (cached_or_keygen a kw) (rows (connection a)) of
          None \<Rightarrow> Inr ()
        | Some e \<Rightarrow> (case on_rollback F of None \<Rightarrow> Inr () | Some e' \<Rightarrow> Inl e'))"
  by (simp add: DownloadArchivePostgresql_add_def Let_def then_commit_def pg_execute_insert_def
        insert_row_def add_fault_def commit_def rollback_def issue_def rows_begin
        split: option.splits)

lemma pg_add_state:
  "snapshot (connection (snd (DownloadArchivePostgresql_add F a kw)))
     = (if add_fault F (stmt_insert a) (cached_or_keygen a kw) (rows (connection a)) = None
           \<or> on_rollback F = None
        then None else Some (rolled_back (connection a)))
   \<and> rows (connection (snd (DownloadArchivePostgresql_add F a kw)))
     = (if add_fault F (stmt_insert a) (cached_or_keygen a kw) (rows (connection a)) = None
        then insert_ignore (cached_or_keygen a kw) (rows (connection a))
        else if on_rollback F = None then rolled_back (connection a)
        else if insert_fault F (stmt_insert a) (cached_or_keygen a kw) (rows (connection a)) = None
        then insert_ignore (cached_or_keygen a kw) (rows (connection a))
        else rows (connection a))"
  by (simp add: DownloadArchivePostgresql_add_def Let_def then_commit_def pg_execute_insert_def
        insert_row_def add_fault_def commit_def rollback_def issue_def rows_begin rolled_back_begin
        rolled_back_def
        split: option.splits)

lemma pg_check_outcome:
  "fst (DownloadArchivePostgresql_check F a kw)
     = (case select_fault F (stmt_select a) (keygen a kw) of
          None \<Rightarrow> Inr (fetchone (keygen a kw \<in> set (rows (connection a))))
        | Some e \<Rightarrow> (case on_rollback F of None \<Rightarrow> Inr PyFalse | Some e' \<Rightarrow> Inl e'))"
  by (simp add: DownloadArchivePostgresql_check_def Let_def pg_select_row_def select_row_def
        rollback_def rows_begin split: option.splits)

lemma pg_check_state:
  "snapshot (connection (snd (snd (DownloadArchivePostgresql_check F a kw))))
     = (if select_fault F (stmt_select a) (keygen a kw) \<noteq> None \<and> on_rollback F = None
        then None else Some (rolled_back (connection a)))
   \<and> rows (connection (snd (snd (DownloadArchivePostgresql_check F a kw))))
     = (if select_fault F (stmt_select a) (keygen a kw) \<noteq> None \<and> on_rollback F = None
        then rolled_back (connection a) else rows (connection a))"
  by (simp add: DownloadArchivePostgresql_check_def Let_def pg_select_row_def select_row_def
        rollback_def rows_begin rolled_back_begin issue_def rolled_back_def
        split: option.splits)

lemma pg_memory_check_outcome:
  "fst (DownloadArchivePostgresqlMemory_check F a kw)
     = (if keygen a kw \<in> set (keys a) then Inr PyTrue
        else (case select_fault F (stmt_select a) (keygen a kw) of
                None \<Rightarrow> Inr (fetchone (keygen a kw \<in> set (rows (connection a))))
              | Some e \<Rightarrow> (case on_rollback F of None \<Rightarrow> Inr PyFalse | Some e' \<Rightarrow> Inl e')))"
  by (simp add: DownloadArchivePostgresqlMemory_check_def Let_def pg_select_row_def select_row_def
        rollback_def rows_begin split: option.splits)

lemma pg_memory_check_state:
  "snapshot (connection (snd (snd (DownloadArchivePostgresqlMemory_check F a kw))))
     = (if keygen a kw \<in> set (keys a) then snapshot (connection a)
        else if select_fault F (stmt_select a) (keygen a kw) \<noteq> None \<and> on_rollback F = None
        then None else Some (rolled_back (connection a)))
   \<and> rows (connection (snd (snd (DownloadArchivePostgresqlMemory_check F a kw))))
     = (if keygen a kw \<notin> set (keys a)
           \<and> select_fault F (stmt_select a) (keygen a kw) \<noteq> None \<and> on_rollback F = None
        then rolled_back (connection a) else rows (connection a))"
  by (simp add: DownloadArchivePostgresqlMemory_check_def Let_def pg_select_row_def select_row_def
        rollback_def rows_begin rolled_back_begin issue_def rolled_back_def
        split: option.splits)

text \<open>
  C5, as the code has it.  In \<open>add\<close> and \<open>check\<close> of the PostgreSQL classes, whatever
  the insert, the select or the commit raises is caught and the handler calls
  \<open>rollback\<close>.  If the rollback call returns, the table is as it was at the start of the
  transaction, no transaction is open, \<open>add\<close> returns normally and \<open>check\<close> returns
  \<open>False\<close>.  If the rollback call itself raises, its exception leaves \<open>add\<close> or
  \<open>check\<close> and the transaction stays open.  (A \<open>check\<close> that succeeds leaves the
  transaction its select opened; a \<open>check\<close> of the memory class that finds the key among
  the pending keys does not touch the connection.)
\<close>

theorem postgres_failures_degrade:
  "fst (DownloadArchivePostgresql_add F a kw)
     = (case add_fault F (stmt_insert a) (cached_or_keygen a kw) (rows (connection a)) of
          None \<Rightarrow> Inr ()
        | Some e \<Rightarrow> (case on_rollback F of None \<Rightarrow> Inr () | Some e' \<Rightarrow> Inl e'))
   \<and> snapshot (connection (snd (DownloadArchivePostgresql_add F a kw)))
     = (if add_fault F (stmt_insert a) (cached_or_keygen a kw) (rows (connection a)) = None
           \<or> on_rollback F = None
        then None else Some (rolled_back (connection a)))
   \<and> rows (connection (snd (DownloadArchivePostgresql_add F a kw)))
     = (if add_fault F (stmt_insert a) (cached_or_keygen a kw) (rows (connection a)) = None
        then insert_ignore (cached_or_keygen a kw) (rows (connection a))
        else if on_rollback F = None then rolled_back (connection a)
        else if insert_fault F (stmt_insert a) (cached_or_keygen a kw) (rows (connection a)) = None
        then insert_ignore (cached_or_keygen a kw) (rows (connection a))
        else rows (connection a))
   \<and> fst (DownloadArchivePostgresql_check F a kw)
     = (case select_fault F (stmt_select a) (keygen a kw) of
          None \<Rightarrow> Inr (fetchone (keygen a kw \<in> set (rows (connection a))))
        | Some e \<Rightarrow> (case on_rollback F of None \<Rightarrow> Inr PyFalse | Some e' \<Rightarrow> Inl e'))
   \<and> snapshot (connection (snd (snd (DownloadArchivePostgresql_check F a kw))))
     = (if select_fault F (stmt_select a) (keygen a kw) \<noteq> None \<and> on_rollback F = None
        then None else Some (rolled_back (connection a)))
   \<and> rows (connection (snd (snd (DownloadArchivePostgresql_check F a kw))))
     = (if select_fault F (stmt_select a) (keygen a kw) \<noteq> None \<and> on_rollback F = None
        then rolled_back (connection a) else rows (connection a))
   \<and> fst (DownloadArchivePostgresqlMemory_check F a kw)
     = (if keygen a kw \<in> set (keys a) then Inr PyTrue
        else (case select_fault F (stmt_select a) (keygen a kw) of
                None \<Rightarrow> Inr (fetchone (keygen a kw \<in> set (rows (connection a))))
              | Some e \<Rightarrow> (case on_rollback F of None \<Rightarrow> Inr PyFalse | Some e' \<Rightarrow> Inl e')))
   \<and> snapshot (connection (snd (snd (DownloadArchivePostgresqlMemory_check F a kw))))
     = (if keygen a kw \<in> set (keys a) then snapshot (connection a)
        else if select_fault F (stmt_select a) (keygen a kw) \<noteq> None \<and> on_rollback F = None
        then None else Some (rolled_back (connection a)))
   \<and> rows (connection (snd (snd (DownloadArchivePostgresqlMemory_check F a kw))))
     = (if keygen a kw \<notin> set (keys a)
           \<and> select_fault F (stmt_select a) (keygen a kw) \<noteq> None \<and> on_rollback F = None
        then rolled_back (connection a) else rows (connection a))
   \<and> \<not> truthy PyFalse"
  using pg_add_outcome [of F a kw] pg_add_state [of F a kw]
    pg_check_outcome [of F a kw] pg_check_state [of F a kw]
    pg_memory_check_outcome [of F a kw] pg_memory_check_state [of F a kw]
  by simp

text \<open>
  C5 as stated fails when the rollback raises too, as on a lost connection: the handler
  does not guard it, and \<open>add\<close> and \<open>check\<close> raise.
\<close>

theorem postgres_rollback_raises_counterexample:
  "fst (archive_add connection_lost (example_archive DownloadArchivePostgresql [] []) [''id'' \<mapsto> ''1''])
     = Inl (OtherException ''the connection is closed'')
   \<and> fst (archive_check connection_lost (example_archive DownloadArchivePostgresql [] []) [''id'' \<mapsto> ''1''])
     = Inl (OtherException ''the connection is closed'')"
  by (simp add: archive_add_def archive_check_def DownloadArchivePostgresql_add_def
        DownloadArchivePostgresql_check_def example_archive_def Let_def connection_lost_def
        then_commit_def pg_execute_insert_def insert_row_def insert_fault_def select_fault_def
        rollback_def pg_select_row_def select_row_def)

subsection \<open>Adding twice\<close>








lemma cached_or_keygen_rows:
  "cached_or_keygen (a\<lparr>connection := c\<rparr>) kw = cached_or_keygen a kw"
  by (simp add: cached_or_keygen_def split: option.splits)

































text \<open>
  The statement matters: with a plain \<open>INSERT\<close> the same engine raises on a key the
  table already holds.
\<close>

lemma plain_insert_raises:
  "fst (archive_add sqlite_engine (plain_insert_archive [''item1'']) [''id'' \<mapsto> ''1''])
     = Inl (OtherException ''IntegrityError: UNIQUE constraint failed'')
   \<and> fst (archive_add sqlite_engine (plain_insert_archive []) [''id'' \<mapsto> ''1'']) = Inr ()"
  by (simp add: archive_add_def DownloadArchive_add_def plain_insert_archive_def example_archive_def
        cached_or_keygen_def example_keygen_def sqlite_execute_insert_def insert_row_def
        insert_fault_def sqlite_engine_def sqlite_refuses_def conflict_raises_def sqlite_forms_def
        match_form_def strip_prefix_def lex_table_def bare_char_def dquote_def issue_def
        new_connection_def Let_def)



subsection \<open>check on the pending keys\<close>

lemma check_pending_hit:
  "is_memory a \<Longrightarrow> keygen a kw \<in> set (keys a) \<Longrightarrow>
   archive_check F a kw = (Inr PyTrue, kw(cache_key a \<mapsto> keygen a kw), a)"
  by (auto simp: is_memory_def archive_check_def DownloadArchiveMemory_check_def
        DownloadArchivePostgresqlMemory_check_def Let_def)

text \<open>
  C8, as the code has it.  In a memory class, \<open>check\<close> of an item whose computed key is
  among the pending keys returns \<open>True\<close> at once: the archive, and with it the list of
  statements handed to the cursor, is unchanged, whatever the driver would have raised.
  After \<open>add(item)\<close> that is the case for \<open>check(item)\<close> when the key \<open>add\<close> used is the
  computed one: the reserved field of the item is absent, empty or holds that key.
\<close>

theorem buffered_check_after_add:
  assumes "is_memory a"
  shows "(keygen a kw \<in> set (keys a) \<longrightarrow>
            archive_check F a kw = (Inr PyTrue, kw(cache_key a \<mapsto> keygen a kw), a))
         \<and> (cached_or_keygen a kw = keygen a kw \<longrightarrow>
              archive_check F (snd (archive_add F a kw)) kw
                = (Inr PyTrue, kw(cache_key a \<mapsto> keygen a kw), snd (archive_add F a kw))
              \<and> connection (snd (archive_add F a kw)) = connection a)"
proof -
  let ?a1 = "a\<lparr>keys := List.insert (cached_or_keygen a kw) (keys a)\<rparr>"
  have 1: "archive_add F a kw = (Inr (), ?a1)"
    using assms by (rule add_memory)
  have m: "is_memory ?a1" using assms by (simp add: is_memory_def)
  have 2: "cached_or_keygen a kw = keygen a kw \<Longrightarrow>
             archive_check F ?a1 kw = (Inr PyTrue, kw(cache_key a \<mapsto> keygen a kw), ?a1)"
  proof -
    assume e: "cached_or_keygen a kw = keygen a kw"
    have h: "keygen ?a1 kw \<in> set (keys ?a1)" by (simp add: e)
    show ?thesis using check_pending_hit [OF m h, of F] by simp
  qed
  show ?thesis
    using check_pending_hit [OF assms, of kw F] 2 by (simp add: 1)
qed

text \<open>
  An item without the reserved field on an empty archive, and an item whose key is
  pending, both on a lost connection.
\<close>

theorem buffered_check_after_add_witness:
  "is_memory (example_archive DownloadArchiveMemory [] [])
   \<and> cached_or_keygen (example_archive DownloadArchiveMemory [] []) [''id'' \<mapsto> ''1'']
       = keygen (example_archive DownloadArchiveMemory [] []) [''id'' \<mapsto> ''1'']
   \<and> fst (archive_check connection_lost
            (snd (archive_add connection_lost (example_archive DownloadArchiveMemory [] []) [''id'' \<mapsto> ''1'']))
            [''id'' \<mapsto> ''1'']) = Inr PyTrue
   \<and> executed (connection (snd (snd (archive_check connection_lost
            (snd (archive_add connection_lost (example_archive DownloadArchiveMemory [] []) [''id'' \<mapsto> ''1'']))
            [''id'' \<mapsto> ''1''])))) = []
   \<and> keygen (example_archive DownloadArchivePostgresqlMemory [] [''item1'']) [''id'' \<mapsto> ''1'']
       \<in> set (keys (example_archive DownloadArchivePostgresqlMemory [] [''item1'']))
   \<and> archive_check connection_lost (example_archive DownloadArchivePostgresqlMemory [] [''item1''])
        [''id'' \<mapsto> ''1'']
       = (Inr PyTrue, [''id'' \<mapsto> ''1'', ''_archive_key'' \<mapsto> ''item1''],
          example_archive DownloadArchivePostgresqlMemory [] [''item1''])"
proof -
  let ?a = "example_archive DownloadArchiveMemory [] []"
  let ?b = "example_archive DownloadArchivePostgresqlMemory [] [''item1'']"
  have m: "is_memory ?a" by (simp add: is_memory_def example_archive_def)
  have k: "cached_or_keygen ?a [''id'' \<mapsto> ''1''] = keygen ?a [''id'' \<mapsto> ''1'']"
    by (simp add: cached_or_keygen_def example_archive_def)
  have e: "executed (connection ?a) = []"
    by (simp add: example_archive_def new_connection_def)
  have n: "is_memory ?b" by (simp add: is_memory_def example_archive_def)
  have g: "keygen ?b [''id'' \<mapsto> ''1''] = ''item1''" "keys ?b = [''item1'']"
          "cache_key ?b = ''_archive_key''"
    by (simp_all add: example_archive_def example_keygen_def)
  have t1: "fst (archive_check connection_lost (snd (archive_add connection_lost ?a [''id'' \<mapsto> ''1'']))
              [''id'' \<mapsto> ''1'']) = Inr PyTrue
            \<and> executed (connection (snd (snd (archive_check connection_lost
              (snd (archive_add connection_lost ?a [''id'' \<mapsto> ''1''])) [''id'' \<mapsto> ''1'']))))
              = []"
    using buffered_check_after_add [OF m, of "[''id'' \<mapsto> ''1'']" connection_lost] k
    by (simp add: e)
  have t2: "archive_check connection_lost ?b [''id'' \<mapsto> ''1'']
              = (Inr PyTrue, [''id'' \<mapsto> ''1'', ''_archive_key'' \<mapsto> ''item1''], ?b)"
    using buffered_check_after_add [OF n, of "[''id'' \<mapsto> ''1'']" connection_lost]
    by (simp add: g)
  show ?thesis
    using m k t1 t2 by (simp add: g)
qed

text \<open>
  C8 as stated fails on an item whose reserved field holds another key: \<open>add\<close> records
  \<open>cached\<close>, \<open>check\<close> looks for \<open>item1\<close>, queries the table and finds nothing.
\<close>

theorem buffered_check_stale_key_counterexample:
  "fst (archive_check no_faults
          (snd (archive_add no_faults (example_archive DownloadArchiveMemory [] []) stale_item))
          stale_item) = Inr PyNone
   \<and> executed (connection (snd (snd (archive_check no_faults
          (snd (archive_add no_faults (example_archive DownloadArchiveMemory [] []) stale_item))
          stale_item))))
       = [(sqlite_stmt_select ''archive'', [''item1''])]
   \<and> keys (snd (archive_add no_faults (example_archive DownloadArchiveMemory [] []) stale_item))
       = [''cached'']"
  by (simp add: archive_check_def archive_add_def DownloadArchiveMemory_add_def
        DownloadArchiveMemory_check_def example_archive_def Let_def cached_or_keygen_def
        stale_item_def example_keygen_def select_row_no_faults new_connection_def issue_def
        fetchone_def)

end
